theory Spec2Isabelle
  imports Complex_Main
begin

section \<open>Light extraction by variance cut: the embedding of extractLightsVariance.cpp\<close>

text \<open>
  The translation unit holds the region partitioner (\<open>splitRecursive\<close>,
  \<open>medianVarianceCut\<close>), the two image loaders, the text dump \<open>printVariance\<close>, the
  serializer \<open>outputJSON\<close> and \<open>main\<close>. The classes \<open>SummedAreaTable\<close>, \<open>SatRegion\<close>,
  \<open>Light\<close> and \<open>Vec3d\<close>, the merge and debug passes, and the decoders \<open>LoadEXR\<close> and
  \<open>stbi_loadf\<close> are declared in headers that are not part of the unit: their methods
  are parameters of the model.

  Conventions: C++ \<open>int\<close> values are \<open>int\<close> (no arithmetic of the unit on them can
  overflow except where a conversion is written out), the \<open>uint\<close> depth budget is a
  \<open>nat\<close> (it is only compared with 0 and decremented when non-zero), \<open>double\<close> and
  \<open>float\<close> are idealised as \<open>real\<close>.
\<close>

subsection \<open>Regions and the summed area table interface\<close>

text \<open>
  The fields of \<open>SatRegion\<close> that the unit reads: the rectangle \<open>_x _y _w _h\<close>, the six
  cached sums \<open>_sum _sum1 .. _sum5\<close>, and the pointer to the table the region was
  created on.
\<close>

record 'sat SatRegion =
  r_x :: int
  r_y :: int
  r_w :: int
  r_h :: int
  r_sum :: real
  r_sum1 :: real
  r_sum2 :: real
  r_sum3 :: real
  r_sum4 :: real
  r_sum5 :: real
  r_sat :: 'sat

text \<open>
  The methods of the absent classes that the partitioner calls: \<open>img.width()\<close>,
  \<open>img.height()\<close>, the table query behind the cached sums (index 0 is \<open>_sum\<close>, index k
  is \<open>_sumk\<close>), and the two split routines \<open>r.split_w(A, B)\<close> and \<open>r.split_h(A, B)\<close>,
  which return the children A and B.
\<close>

record 'sat sat_ops =
  sat_width :: "'sat \<Rightarrow> int"
  sat_height :: "'sat \<Rightarrow> int"
  sat_moment :: "'sat \<Rightarrow> nat \<Rightarrow> int \<Rightarrow> int \<Rightarrow> int \<Rightarrow> int \<Rightarrow> real"
  split_w :: "'sat SatRegion \<Rightarrow> 'sat SatRegion \<times> 'sat SatRegion"
  split_h :: "'sat SatRegion \<Rightarrow> 'sat SatRegion \<times> 'sat SatRegion"

text \<open>
  Modelled from the spec: \<open>SatRegion::create\<close> is declared in the absent header
  SummedAreaTableRegion. By the data model of the spec it stores the rectangle and the
  reference to the table and caches the table's aggregate sums over the rectangle.
\<close>

definition create ::
  "'sat sat_ops \<Rightarrow> int \<Rightarrow> int \<Rightarrow> int \<Rightarrow> int \<Rightarrow> 'sat \<Rightarrow> 'sat SatRegion" where
  "create ops x y w h sat =
     \<lparr>r_x = x, r_y = y, r_w = w, r_h = h,
      r_sum = sat_moment ops sat 0 x y w h,
      r_sum1 = sat_moment ops sat 1 x y w h,
      r_sum2 = sat_moment ops sat 2 x y w h,
      r_sum3 = sat_moment ops sat 3 x y w h,
      r_sum4 = sat_moment ops sat 4 x y w h,
      r_sum5 = sat_moment ops sat 5 x y w h,
      r_sat = sat\<rparr>"

subsection \<open>The partitioner\<close>

text \<open>
  \<open>splitRecursive(r, n, regions)\<close>: the vector \<open>regions\<close> is passed in and returned;
  \<open>push_back\<close> appends. A child is descended into only when both its dimensions exceed
  2; there is no \<open>else\<close> branch, so the vector is unchanged for the other children.
\<close>

function splitRecursive ::
  "'sat sat_ops \<Rightarrow> 'sat SatRegion \<Rightarrow> nat \<Rightarrow> 'sat SatRegion list \<Rightarrow> 'sat SatRegion list" where
  "splitRecursive ops r n regions =
     (if r_w r < 2 \<or> r_h r < 2 \<or> n = 0 then regions @ [r]
      else
        (case (if r_w r > r_h r then split_w ops r else split_h ops r) of
           (A, B) \<Rightarrow>
             (let regions1 =
                    (if r_h A > 2 \<and> r_w A > 2
                     then splitRecursive ops A (n - 1) regions else regions)
              in if r_h B > 2 \<and> r_w B > 2
                 then splitRecursive ops B (n - 1) regions1 else regions1)))"
  by pat_completeness auto
termination
  by (relation "measure (\<lambda>(ops, r, n, regions). n)") auto

declare splitRecursive.simps [simp del]

text \<open>
  \<open>medianVarianceCut(img, n, regions)\<close>: clears the vector, creates the region of the
  whole image and splits it.
\<close>

definition medianVarianceCut :: "'sat sat_ops \<Rightarrow> 'sat \<Rightarrow> nat \<Rightarrow> 'sat SatRegion list" where
  "medianVarianceCut ops img n =
     splitRecursive ops (create ops 0 0 (sat_width ops img) (sat_height ops img) img) n []"


subsection \<open>Standard output\<close>

text \<open>
  What the unit writes to standard output, one chunk per group of output statements.
  The decimal rendering of numbers by \<open>printf\<close> and by the stream operators is not
  modelled: a chunk carries the values that are printed.
\<close>

type_synonym vec3 = "real \<times> real \<times> real"

record json_light =
  j_direction :: vec3
  j_luminosity :: real
  j_color :: vec3
  j_area_x :: real
  j_area_y :: real
  j_area_w :: real
  j_area_h :: real
  j_sum :: real
  j_lum_ratio :: real
  j_variance :: real
  j_error :: int

datatype chunk =
  RegionRect int int int int int
  | RegionSums int real real real real real real
  | Text string
  | LightObj json_light

text \<open>
  \<open>printVariance\<close>: two \<open>printf\<close> lines per region, the index \<open>i\<close> counting from 0.
\<close>

fun printVariance_from :: "int \<Rightarrow> 'sat SatRegion list \<Rightarrow> chunk list" where
  "printVariance_from i [] = []"
| "printVariance_from i (r # rs) =
     [RegionRect i (r_x r) (r_y r) (r_w r) (r_h r),
      RegionSums i (r_sum r) (r_sum1 r) (r_sum2 r) (r_sum3 r) (r_sum4 r) (r_sum5 r)]
     @ printVariance_from (i + 1) rs"

definition printVariance :: "'sat SatRegion list \<Rightarrow> chunk list" where
  "printVariance regions = printVariance_from 0 regions"

subsection \<open>Image loading\<close>

record Image =
  img_width :: int
  img_height :: int
  img_data :: "real list"
  img_nc :: int

text \<open>
  \<open>load_image_exr\<close> calls \<open>LoadEXR\<close>, which either fails with a message (\<open>Inl\<close>) or
  yields the pixel buffer with width and height. On failure the message is printed to
  standard output and 1 is returned: the result \<open>Inl err\<close> stands for both. On success
  the channel count is 4 and 0 is returned (\<open>Inr\<close>).
\<close>

definition load_image_exr ::
  "(string \<Rightarrow> string + real list \<times> int \<times> int) \<Rightarrow> string \<Rightarrow> string + Image" where
  "load_image_exr LoadEXR filename =
     (case LoadEXR filename of
        Inl err \<Rightarrow> Inl err
      | Inr (d, w, h) \<Rightarrow> Inr \<lparr>img_width = w, img_height = h, img_data = d, img_nc = 4\<rparr>)"

text \<open>
  \<open>load_image_hdr\<close> calls \<open>stbi_loadf\<close> asking for 3 channels; a null buffer makes it
  return 1 (\<open>None\<close>), otherwise the channel count is 3 and 0 is returned.
\<close>

definition load_image_hdr ::
  "(string \<Rightarrow> (real list \<times> int \<times> int) option) \<Rightarrow> string \<Rightarrow> Image option" where
  "load_image_hdr stbi_loadf filename =
     (case stbi_loadf filename of
        None \<Rightarrow> None
      | Some (d, w, h) \<Rightarrow> Some \<lparr>img_width = w, img_height = h, img_data = d, img_nc = 3\<rparr>)"

subsection \<open>Serializing the lights\<close>

text \<open>The fields of \<open>Light\<close> that \<open>outputJSON\<close> reads.\<close>

record Light =
  l_centroidPosition :: "real \<times> real"
  l_w :: real
  l_h :: real
  l_rAverage :: real
  l_gAverage :: real
  l_bAverage :: real
  l_lumAverage :: real
  l_sum :: real
  l_variance :: real
  l_error :: bool

text \<open>
  The direction of a centroid \<open>(x, y)\<close>, as the loop body computes it. \<open>Vec3d::normalize\<close>
  belongs to the absent header Math and is the parameter \<open>nrm\<close>; the macro \<open>PI\<close> is
  \<open>pi\<close>.
\<close>

definition direction_of :: "(vec3 \<Rightarrow> vec3) \<Rightarrow> real \<Rightarrow> real \<Rightarrow> vec3" where
  "direction_of nrm x y =
     (let phi = (x * 2.0 * pi) - pi * 0.5;
          theta = (1.0 - y) * pi
      in nrm (sin theta * cos phi, cos theta, sin theta * sin phi))"

definition light_object :: "(vec3 \<Rightarrow> vec3) \<Rightarrow> real \<Rightarrow> Light \<Rightarrow> json_light" where
  "light_object nrm luminanceSum l =
     (let x = fst (l_centroidPosition l); y = snd (l_centroidPosition l)
      in \<lparr>j_direction = direction_of nrm x y,
          j_luminosity = l_lumAverage l,
          j_color = (l_rAverage l, l_gAverage l, l_bAverage l),
          j_area_x = x, j_area_y = y, j_area_w = l_w l, j_area_h = l_h l,
          j_sum = l_sum l,
          j_lum_ratio = l_sum l / luminanceSum,
          j_variance = l_variance l,
          j_error = (if l_error l then 1 else 0)\<rparr>)"

text \<open>
  The \<open>for\<close> loop of \<open>outputJSON\<close> over the remaining lights, with the counter \<open>i\<close>. The
  loop stops at the end of the list or when \<open>i\<close> reaches \<open>numLightsMax\<close>. The \<open>continue\<close>
  of a culled light goes to the next light and skips the \<open>i++\<close> at the end of the body.
  Both are \<open>size_t\<close>; \<open>numLightsMax - 1\<close> is evaluated only under \<open>i < numLightsMax\<close>,
  where it does not wrap.
\<close>

fun outputJSON_loop ::
  "(vec3 \<Rightarrow> vec3) \<Rightarrow> real \<Rightarrow> nat \<Rightarrow> nat \<Rightarrow> Light list \<Rightarrow> chunk list" where
  "outputJSON_loop nrm luminanceSum numLightsMax i [] = []"
| "outputJSON_loop nrm luminanceSum numLightsMax i (l # ls) =
     (if i < numLightsMax then
        (if snd (l_centroidPosition l) \<ge> 0.5
         then outputJSON_loop nrm luminanceSum numLightsMax i ls
         else [LightObj (light_object nrm luminanceSum l)]
              @ (if i < numLightsMax - 1 then [Text '',''] else [])
              @ outputJSON_loop nrm luminanceSum numLightsMax (i + 1) ls)
      else [])"

definition outputJSON ::
  "(vec3 \<Rightarrow> vec3) \<Rightarrow> Light list \<Rightarrow> nat \<Rightarrow> nat \<Rightarrow> nat \<Rightarrow> real \<Rightarrow> int \<Rightarrow> chunk list" where
  "outputJSON nrm lights height width imageAreaSize luminanceSum numLights =
     (let numLightsMax = (if numLights > 0 then nat numLights else length lights)
      in [Text ''[''] @ outputJSON_loop nrm luminanceSum numLightsMax 0 lights @ [Text '']''])"

text \<open>The light records among the chunks of an output.\<close>

fun light_records :: "chunk list \<Rightarrow> json_light list" where
  "light_records [] = []"
| "light_records (LightObj j # cs) = j # light_records cs"
| "light_records (c # cs) = light_records cs"


subsection \<open>The program\<close>

text \<open>
  The collaborators of \<open>main\<close> that are not defined in the unit: the two decoders,
  \<open>atoi\<close> and \<open>atof\<close>, the table builder \<open>createLum\<close> and the accessors \<open>getSum\<close>,
  \<open>getMaxLum\<close>, \<open>getMinLum\<close>, the light synthesis \<open>createLightsFromRegions\<close> (it fills
  the empty vector \<open>lights\<close>), \<open>std::sort\<close> on lights (it uses the absent
  \<open>Light::operator<\<close>), \<open>mergeLights\<close> (it takes \<open>lights\<close> and the empty \<open>mainLights\<close>
  by reference: the result is the pair of both afterwards), \<open>Vec3d::normalize\<close>, and
  \<open>debugDrawLight\<close> with whatever text it prints.
\<close>

record 'sat env =
  sat :: "'sat sat_ops"
  LoadEXR :: "string \<Rightarrow> string + real list \<times> int \<times> int"
  stbi_loadf :: "string \<Rightarrow> (real list \<times> int \<times> int) option"
  atoi :: "string \<Rightarrow> int"
  atof :: "string \<Rightarrow> real"
  createLum :: "real list \<Rightarrow> int \<Rightarrow> int \<Rightarrow> int \<Rightarrow> 'sat"
  getSum :: "'sat \<Rightarrow> real"
  getMaxLum :: "'sat \<Rightarrow> real"
  getMinLum :: "'sat \<Rightarrow> real"
  createLightsFromRegions ::
    "'sat SatRegion list \<Rightarrow> real list \<Rightarrow> real \<Rightarrow> int \<Rightarrow> int \<Rightarrow> int \<Rightarrow> 'sat \<Rightarrow> Light list"
  sort_lights :: "Light list \<Rightarrow> Light list"
  mergeLights ::
    "Light list \<Rightarrow> int \<Rightarrow> int \<Rightarrow> real \<Rightarrow> real \<Rightarrow> real \<Rightarrow> real \<Rightarrow> Light list \<times> Light list"
  vec_normalize :: "vec3 \<Rightarrow> vec3"
  debugDrawLight ::
    "'sat SatRegion list \<Rightarrow> Light list \<Rightarrow> Light list \<Rightarrow> real list \<Rightarrow> int \<Rightarrow> int \<Rightarrow> int
       \<Rightarrow> real \<Rightarrow> real \<Rightarrow> int \<Rightarrow> string list"

text \<open>The local variables of \<open>main\<close> that the options set, with their initial values.\<close>

record config =
  ratioLengthSizeMax :: real
  ratioAreaSizeMax :: real
  numLights :: int
  ratioLuminanceLight :: real
  numCuts :: int
  debug :: bool

definition initial_config :: config where
  "initial_config =
     \<lparr>ratioLengthSizeMax = 0.08, ratioAreaSizeMax = 0.05, numLights = 1,
      ratioLuminanceLight = 0.5, numCuts = 8, debug = False\<rparr>"

text \<open>
  The \<open>getopt\<close> loop. Its input is the sequence of what the successive calls of
  \<open>getopt\<close> return before \<open>-1\<close>: the option character with \<open>optarg\<close>. Any character
  outside the six options (\<open>getopt\<close> returns \<open>?\<close> for an unknown flag) takes the
  \<open>default\<close> branch, which returns \<open>usage(argv[0])\<close>: \<open>None\<close>.
\<close>

fun getopt_loop :: "'sat env \<Rightarrow> (char \<times> string) list \<Rightarrow> config \<Rightarrow> config option" where
  "getopt_loop e [] cfg = Some cfg"
| "getopt_loop e ((c, optarg) # rest) cfg =
     (if c = CHR ''a'' then getopt_loop e rest (cfg\<lparr>ratioAreaSizeMax := atof e optarg\<rparr>)
      else if c = CHR ''d'' then getopt_loop e rest (cfg\<lparr>debug := True\<rparr>)
      else if c = CHR ''l'' then getopt_loop e rest (cfg\<lparr>ratioLengthSizeMax := atof e optarg\<rparr>)
      else if c = CHR ''m'' then getopt_loop e rest (cfg\<lparr>numLights := atoi e optarg\<rparr>)
      else if c = CHR ''n'' then getopt_loop e rest (cfg\<lparr>numCuts := atoi e optarg\<rparr>)
      else if c = CHR ''r'' then getopt_loop e rest (cfg\<lparr>ratioLuminanceLight := atof e optarg\<rparr>)
      else None)"

text \<open>
  An invocation: \<open>argv\<close> as \<open>getopt\<close> leaves it, the results of the \<open>getopt\<close> calls, and
  the final \<open>optind\<close>. \<open>argc\<close> is the length of \<open>argv\<close>; \<open>argv[0]\<close> exists, and \<open>argv[1]\<close>
  exists wherever \<open>main\<close> reads it (there \<open>1 \<le> optind < argc\<close>).
\<close>

record invocation =
  argv :: "string list"
  getopt_results :: "(char \<times> string) list"
  optind :: nat

text \<open>What a run leaves behind: the exit code and the two output streams.\<close>

record outcome =
  exit_code :: int
  stdout :: "chunk list"
  stderr :: string

definition usage :: "string \<Rightarrow> string \<times> int" where
  "usage name =
     (''Usage: '' @ name @
      '' [-a max_light_areas] [-l max_light_length] [-r ratioLight] [-n numCuts] [-m lightsNum] [-d] file.hdr''
      @ [CHR 0x0A], 1)"

text \<open>
  \<open>main\<close>. The conversions to \<open>uint\<close> (of \<open>numCuts\<close> at the call of
  \<open>medianVarianceCut\<close>, of the product \<open>width * height\<close>, of \<open>height\<close> and \<open>width\<close> at the
  call of \<open>outputJSON\<close>) are reductions modulo \<open>2 ^ 32\<close>. The merge pass is the one
  compiled in (\<open>MERGE\<close> defined, \<open>SELECT\<close> and \<open>NEARLIGHT_MERGE\<close> not). The discarded
  query \<open>lum_sat.sum(...)\<close> has no effect on the outcome.
\<close>

definition to_uint :: "int \<Rightarrow> nat" where
  "to_uint i = nat (i mod 2 ^ 32)"

definition main :: "'sat env \<Rightarrow> invocation \<Rightarrow> outcome" where
  "main e call =
     (case getopt_loop e (getopt_results call) initial_config of
        None \<Rightarrow>
          \<lparr>exit_code = snd (usage (argv call ! 0)), stdout = [],
           stderr = fst (usage (argv call ! 0))\<rparr>
      | Some cfg \<Rightarrow>
          if optind call < length (argv call) then
            (case load_image_exr (LoadEXR e) (argv call ! optind call) of
               Inl err \<Rightarrow>
                 \<lparr>exit_code = 1, stdout = [Text err],
                  stderr = ''Cannot open '' @ argv call ! 1 @ '' image file'' @ [CHR 0x0A]\<rparr>
             | Inr img \<Rightarrow>
                 (let width = img_width img;
                      height = img_height img;
                      nc = img_nc img;
                      imageAreaSize = to_uint (img_width img * img_height img);
                      rgba = img_data img;
                      lum_sat = createLum e rgba width height nc;
                      regions = medianVarianceCut (sat e) lum_sat (to_uint (numCuts cfg));
                      out1 = printVariance regions
                  in if regions = [] then
                       \<lparr>exit_code = 1, stdout = out1,
                        stderr = ''Cannot cut '' @ argv call ! 1 @ '' into light regions''
                                 @ [CHR 0x0A]\<rparr>
                     else
                       (let luminanceSum = getSum e lum_sat;
                            luminanceMaxLight = ratioLuminanceLight cfg * luminanceSum;
                            lights0 = createLightsFromRegions e regions rgba luminanceMaxLight
                                        width height nc lum_sat;
                            lights1 = sort_lights e lights0;
                            areaSizeMax = ratioAreaSizeMax cfg;
                            degreeMerge = 35.0;
                            mergeAreaSize = areaSizeMax;
                            merged = mergeLights e lights1 width height mergeAreaSize
                                       (ratioLengthSizeMax cfg) luminanceMaxLight degreeMerge;
                            lights = fst merged;
                            mainLights = rev (sort_lights e (snd merged));
                            out2 = outputJSON (vec_normalize e) mainLights (to_uint height)
                                     (to_uint width) imageAreaSize luminanceSum (numLights cfg);
                            out3 = (if debug cfg
                                    then map Text
                                           (debugDrawLight e regions lights mainLights rgba width
                                              height nc (getMaxLum e lum_sat) (getMinLum e lum_sat)
                                              (numLights cfg))
                                    else [])
                        in \<lparr>exit_code = 0, stdout = out1 @ out2 @ out3, stderr = []\<rparr>)))
          else
            \<lparr>exit_code = snd (usage (argv call ! 0)), stdout = [],
             stderr = fst (usage (argv call ! 0))\<rparr>)"


subsection \<open>Vocabulary of the properties\<close>

text \<open>
  The pixels of a region: columns \<open>_x \<le> i < _x + _w\<close>, rows \<open>_y \<le> j < _y + _h\<close>; the
  pixels of an image; the pixels that a list of regions covers; regions that are
  pairwise disjoint.
\<close>

definition pixels :: "'sat SatRegion \<Rightarrow> (int \<times> int) set" where
  "pixels r = {r_x r ..< r_x r + r_w r} \<times> {r_y r ..< r_y r + r_h r}"

definition image_pixels :: "'sat sat_ops \<Rightarrow> 'sat \<Rightarrow> (int \<times> int) set" where
  "image_pixels ops img = {0 ..< sat_width ops img} \<times> {0 ..< sat_height ops img}"

definition cover :: "'sat SatRegion list \<Rightarrow> (int \<times> int) set" where
  "cover rs = (\<Union>r \<in> set rs. pixels r)"

fun disjoint_regions :: "'sat SatRegion list \<Rightarrow> bool" where
  "disjoint_regions [] = True"
| "disjoint_regions (r # rs) =
     ((\<forall>s \<in> set rs. pixels r \<inter> pixels s = {}) \<and> disjoint_regions rs)"

text \<open>
  What the spec expects of a split routine, which the unit cannot show of the absent
  \<open>split_w\<close> and \<open>split_h\<close>: the two children are disjoint and together make up the
  region that was split.
\<close>

definition split_exact ::
  "('sat SatRegion \<Rightarrow> 'sat SatRegion \<times> 'sat SatRegion) \<Rightarrow> bool" where
  "split_exact sp =
     (\<forall>r. case sp r of (A, B) \<Rightarrow>
        pixels A \<inter> pixels B = {} \<and> pixels A \<union> pixels B = pixels r)"

text \<open>
  A specification function, not part of the program: the children that
  \<open>splitRecursive\<close> does not descend into, collected along the same recursion. The
  program keeps no such list; these regions are lost.
\<close>

function droppedRecursive ::
  "'sat sat_ops \<Rightarrow> 'sat SatRegion \<Rightarrow> nat \<Rightarrow> 'sat SatRegion list" where
  "droppedRecursive ops r n =
     (if r_w r < 2 \<or> r_h r < 2 \<or> n = 0 then []
      else
        (case (if r_w r > r_h r then split_w ops r else split_h ops r) of
           (A, B) \<Rightarrow>
             (if r_h A > 2 \<and> r_w A > 2 then droppedRecursive ops A (n - 1) else [A]) @
             (if r_h B > 2 \<and> r_w B > 2 then droppedRecursive ops B (n - 1) else [B])))"
  by pat_completeness auto
termination
  by (relation "measure (\<lambda>(ops, r, n). n)") auto

declare droppedRecursive.simps [simp del]

definition droppedCut :: "'sat sat_ops \<Rightarrow> 'sat \<Rightarrow> nat \<Rightarrow> 'sat SatRegion list" where
  "droppedCut ops img n =
     droppedRecursive ops (create ops 0 0 (sat_width ops img) (sat_height ops img) img) n"

text \<open>
  What a child contributes at a split step: its leaves when both its dimensions exceed
  2, nothing otherwise.
\<close>

definition descend :: "'sat sat_ops \<Rightarrow> 'sat SatRegion \<Rightarrow> nat \<Rightarrow> 'sat SatRegion list" where
  "descend ops C m = (if r_h C > 2 \<and> r_w C > 2 then splitRecursive ops C m [] else [])"

text \<open>
  The direction of a centroid \<open>(u, v)\<close> as the spec words it, before normalization: the
  longitude is \<open>\<phi> = 2\<pi>u - \<pi>/2\<close>, the colatitude \<open>\<theta> = \<pi>(1 - v)\<close>, and the vector is
  \<open>(sin \<theta> cos \<phi>, cos \<theta>, sin \<theta> sin \<phi>)\<close>.
\<close>

definition spec_direction :: "real \<Rightarrow> real \<Rightarrow> vec3" where
  "spec_direction u v =
     (sin (pi * (1 - v)) * cos (2 * pi * u - pi / 2),
      cos (pi * (1 - v)),
      sin (pi * (1 - v)) * sin (2 * pi * u - pi / 2))"

text \<open>
  The light that \<open>outputJSON\<close> culls: its centroid lies in the lower half of the map.
\<close>

definition culled :: "Light \<Rightarrow> bool" where
  "culled l = (snd (l_centroidPosition l) \<ge> 0.5)"

text \<open>
  The loop of \<open>outputJSON\<close> as the spec words it, for comparison with the loop of the
  program: a culled light emits no record but takes an index like an emitted one.
\<close>

fun outputJSON_loop_spec ::
  "(vec3 \<Rightarrow> vec3) \<Rightarrow> real \<Rightarrow> nat \<Rightarrow> nat \<Rightarrow> Light list \<Rightarrow> chunk list" where
  "outputJSON_loop_spec nrm luminanceSum numLightsMax i [] = []"
| "outputJSON_loop_spec nrm luminanceSum numLightsMax i (l # ls) =
     (if i < numLightsMax then
        (if snd (l_centroidPosition l) \<ge> 0.5
         then outputJSON_loop_spec nrm luminanceSum numLightsMax (i + 1) ls
         else [LightObj (light_object nrm luminanceSum l)]
              @ (if i < numLightsMax - 1 then [Text '',''] else [])
              @ outputJSON_loop_spec nrm luminanceSum numLightsMax (i + 1) ls)
      else [])"

subsection \<open>A concrete table and concrete collaborators\<close>

text \<open>
  For evaluating the program: the table of a flat image, all of whose pixels have
  luminance 1, is given by the image's width and height; every sum over a rectangle
  is its area, and the cut that balances the energy of the two children is the
  bisection of the rectangle (the first child takes the smaller half when the length
  is odd).
\<close>

definition flat_region ::
  "int \<times> int \<Rightarrow> int \<Rightarrow> int \<Rightarrow> int \<Rightarrow> int \<Rightarrow> (int \<times> int) SatRegion" where
  "flat_region t x y w h =
     \<lparr>r_x = x, r_y = y, r_w = w, r_h = h,
      r_sum = of_int (w * h), r_sum1 = of_int (w * h), r_sum2 = of_int (w * h),
      r_sum3 = of_int (w * h), r_sum4 = of_int (w * h), r_sum5 = of_int (w * h),
      r_sat = t\<rparr>"

definition flat_ops :: "(int \<times> int) sat_ops" where
  "flat_ops =
     \<lparr>sat_width = fst, sat_height = snd,
      sat_moment = (\<lambda>t k x y w h. of_int (w * h)),
      split_w = (\<lambda>r.
         (flat_region (r_sat r) (r_x r) (r_y r) (r_w r div 2) (r_h r),
          flat_region (r_sat r) (r_x r + r_w r div 2) (r_y r) (r_w r - r_w r div 2) (r_h r))),
      split_h = (\<lambda>r.
         (flat_region (r_sat r) (r_x r) (r_y r) (r_w r) (r_h r div 2),
          flat_region (r_sat r) (r_x r) (r_y r + r_h r div 2) (r_w r) (r_h r - r_h r div 2)))\<rparr>"

text \<open>
  One light per region, at the centre of the region in normalized coordinates, for a
  flat image.
\<close>

definition flat_light :: "int \<Rightarrow> int \<Rightarrow> (int \<times> int) SatRegion \<Rightarrow> Light" where
  "flat_light width height r =
     \<lparr>l_centroidPosition =
        ((of_int (r_x r) + of_int (r_w r) / 2) / of_int width,
         (of_int (r_y r) + of_int (r_h r) / 2) / of_int height),
      l_w = of_int (r_w r) / of_int width, l_h = of_int (r_h r) / of_int height,
      l_rAverage = 1, l_gAverage = 1, l_bAverage = 1, l_lumAverage = 1,
      l_sum = r_sum r, l_variance = 0, l_error = False\<rparr>"

definition unit_vec :: "vec3 \<Rightarrow> vec3" where
  "unit_vec v =
     (case v of (a, b, c) \<Rightarrow>
        (let n = sqrt (a * a + b * b + c * c)
         in if n > 0 then (a / n, b / n, c / n) else (a, b, c)))"

fun digits_value :: "string \<Rightarrow> int \<Rightarrow> int" where
  "digits_value [] acc = acc"
| "digits_value (c # cs) acc = digits_value cs (10 * acc + (int (of_char c) - 48))"

text \<open>
  The files of the concrete environment: \<open>sky.exr\<close> is a flat 6 by 6 image,
  \<open>tiny.exr\<close> a flat 2 by 2 image; the EXR decoder rejects every other path, among them
  \<open>sky.hdr\<close>, which the HDR decoder reads as a flat 6 by 6 image.
\<close>

definition flat_env :: "(int \<times> int) env" where
  "flat_env =
     \<lparr>sat = flat_ops,
      LoadEXR = (\<lambda>path.
         if path = ''sky.exr'' then Inr (replicate 144 1, 6, 6)
         else if path = ''tiny.exr'' then Inr (replicate 16 1, 2, 2)
         else Inl ''Invalid EXR header.''),
      stbi_loadf = (\<lambda>path.
         if path = ''sky.hdr'' then Some (replicate 108 1, 6, 6) else None),
      atoi = (\<lambda>s. digits_value s 0),
      atof = (\<lambda>s. of_int (digits_value s 0)),
      createLum = (\<lambda>d w h nc. (w, h)),
      getSum = (\<lambda>t. of_int (fst t * snd t)),
      getMaxLum = (\<lambda>t. 1),
      getMinLum = (\<lambda>t. 1),
      createLightsFromRegions = (\<lambda>regions d lum w h nc t. map (flat_light w h) regions),
      sort_lights = sort_key l_sum,
      mergeLights = (\<lambda>lights w h a l lum deg. (lights, lights)),
      vec_normalize = unit_vec,
      debugDrawLight = (\<lambda>regions lights mainLights d w h nc mx mn k. [])\<rparr>"


text \<open>
  Two lights of the flat 6 by 6 image: the light of its lower half, whose centroid has
  \<open>v = 3/4\<close>, and the light of its upper half, with \<open>v = 1/4\<close>.
\<close>

definition low_light :: Light where
  "low_light = flat_light 6 6 (flat_region (6, 6) 0 3 6 3)"

definition high_light :: Light where
  "high_light = flat_light 6 6 (flat_region (6, 6) 0 0 6 3)"

text \<open>
  Invocations: \<open>extractLights tiny.exr\<close>, \<open>extractLights -n 1 sky.exr\<close>,
  \<open>extractLights -n 1 sky.hdr\<close>, \<open>extractLights\<close> alone, and \<open>extractLights -x sky.exr\<close>,
  for which \<open>getopt\<close> returns \<open>?\<close>.
\<close>

definition tiny_call :: invocation where
  "tiny_call = \<lparr>argv = [''extractLights'', ''tiny.exr''], getopt_results = [], optind = 1\<rparr>"

definition sky_call :: invocation where
  "sky_call =
     \<lparr>argv = [''extractLights'', ''-n'', ''1'', ''sky.exr''],
      getopt_results = [(CHR ''n'', ''1'')], optind = 3\<rparr>"

definition hdr_call :: invocation where
  "hdr_call =
     \<lparr>argv = [''extractLights'', ''-n'', ''1'', ''sky.hdr''],
      getopt_results = [(CHR ''n'', ''1'')], optind = 3\<rparr>"

definition bare_call :: invocation where
  "bare_call = \<lparr>argv = [''extractLights''], getopt_results = [], optind = 1\<rparr>"

definition bad_flag_call :: invocation where
  "bad_flag_call =
     \<lparr>argv = [''extractLights'', ''-x'', ''sky.exr''],
      getopt_results = [(CHR ''?'', [])], optind = 2\<rparr>"

section \<open>Properties of the partitioner\<close>

subsection \<open>The vector of regions is only appended to\<close>

lemma splitRecursive_acc:
  "splitRecursive ops r n regions = regions @ splitRecursive ops r n []"
proof (induction n arbitrary: r regions)
  case 0
  show ?case by (simp add: splitRecursive.simps [of ops r 0])
next
  case (Suc n)
  obtain A B where AB: "(if r_w r > r_h r then split_w ops r else split_h ops r) = (A, B)"
    by (cases "if r_w r > r_h r then split_w ops r else split_h ops r") 
  have a: "\<And>acc. splitRecursive ops A n acc = acc @ splitRecursive ops A n []"
    using Suc.IH by blast
  have b: "\<And>acc. splitRecursive ops B n acc = acc @ splitRecursive ops B n []"
    using Suc.IH by blast
  have l: "splitRecursive ops r (Suc n) regions =
      (if r_w r < 2 \<or> r_h r < 2 then regions @ [r]
       else if r_h B > 2 \<and> r_w B > 2
            then splitRecursive ops B n
                   (if r_h A > 2 \<and> r_w A > 2 then splitRecursive ops A n regions else regions)
            else (if r_h A > 2 \<and> r_w A > 2 then splitRecursive ops A n regions else regions))" for regions
    by (subst splitRecursive.simps) (simp add: AB Let_def)
  show ?case
    unfolding l [of regions] l [of "[]"]
    using a [of regions] b [of "regions @ splitRecursive ops A n []"] b [of regions]
      b [of "splitRecursive ops A n []"]
    by simp
qed

lemma leaves_unfold:
  "splitRecursive ops r n [] =
     (if r_w r < 2 \<or> r_h r < 2 \<or> n = 0 then [r]
      else
        (case (if r_w r > r_h r then split_w ops r else split_h ops r) of
           (A, B) \<Rightarrow>
             (if r_h A > 2 \<and> r_w A > 2 then splitRecursive ops A (n - 1) [] else []) @
             (if r_h B > 2 \<and> r_w B > 2 then splitRecursive ops B (n - 1) [] else [])))"
proof -
  obtain A B where AB: "(if r_w r > r_h r then split_w ops r else split_h ops r) = (A, B)"
    by (cases "if r_w r > r_h r then split_w ops r else split_h ops r")
  show ?thesis
    unfolding AB
    apply (subst splitRecursive.simps)
    unfolding AB Let_def prod.case
    using splitRecursive_acc [of ops B "n - 1" "splitRecursive ops A (n - 1) []"]
    by simp
qed

lemma length_leaves: "length (splitRecursive ops r n []) \<le> 2 ^ n"
proof (induction n arbitrary: r)
  case 0
  show ?case by (simp add: leaves_unfold [of ops r 0])
next
  case (Suc n)
  obtain A B where AB: "(if r_w r > r_h r then split_w ops r else split_h ops r) = (A, B)"
    by (cases "if r_w r > r_h r then split_w ops r else split_h ops r")
  have a: "length (splitRecursive ops A n []) \<le> 2 ^ n" and b: "length (splitRecursive ops B n []) \<le> 2 ^ n"
    using Suc.IH by blast+
  show ?case
    unfolding leaves_unfold [of ops r "Suc n"] AB prod.case
    using a b by simp
qed



subsection \<open>Leaves and dropped children partition the region\<close>

lemma cover_simps [simp]:
  "cover [] = {}" "cover (r # rs) = pixels r \<union> cover rs" "cover (xs @ ys) = cover xs \<union> cover ys"
  by (auto simp: cover_def)

lemma pixels_subset_cover: "r \<in> set rs \<Longrightarrow> pixels r \<subseteq> cover rs"
  by (auto simp: cover_def)

lemma disjoint_regions_append:
  "disjoint_regions (xs @ ys) \<longleftrightarrow>
     disjoint_regions xs \<and> disjoint_regions ys \<and>
     (\<forall>a \<in> set xs. \<forall>b \<in> set ys. pixels a \<inter> pixels b = {})"
  by (induction xs) auto

lemma disjoint_regions_merge:
  assumes "disjoint_regions (la @ da)" and "disjoint_regions (lb @ db)"
    and "cover (la @ da) \<inter> cover (lb @ db) = {}"
  shows "disjoint_regions ((la @ lb) @ (da @ db))"
proof -
  have x: "pixels a \<inter> pixels b = {}"
    if "a \<in> set (la @ da)" "b \<in> set (lb @ db)" for a b
    using pixels_subset_cover [OF that(1)] pixels_subset_cover [OF that(2)] assms(3) by blast
  have y: "pixels b \<inter> pixels a = {}"
    if "a \<in> set (la @ da)" "b \<in> set (lb @ db)" for a b
    using x [OF that] by blast
  show ?thesis
    using assms(1,2) x y unfolding disjoint_regions_append by simp blast
qed

lemma dropped_unfold_Suc:
  assumes "(if r_w r > r_h r then split_w ops r else split_h ops r) = (A, B)"
  shows "droppedRecursive ops r (Suc n) =
     (if r_w r < 2 \<or> r_h r < 2 then []
      else (if r_h A > 2 \<and> r_w A > 2 then droppedRecursive ops A n else [A]) @
           (if r_h B > 2 \<and> r_w B > 2 then droppedRecursive ops B n else [B]))"
  by (subst droppedRecursive.simps) (simp add: assms)

lemma leaves_unfold_Suc:
  assumes "(if r_w r > r_h r then split_w ops r else split_h ops r) = (A, B)"
  shows "splitRecursive ops r (Suc n) [] =
     (if r_w r < 2 \<or> r_h r < 2 then [r]
      else (if r_h A > 2 \<and> r_w A > 2 then splitRecursive ops A n [] else []) @
           (if r_h B > 2 \<and> r_w B > 2 then splitRecursive ops B n [] else []))"
  by (subst leaves_unfold) (simp add: assms)

lemma split_exact_children:
  assumes "split_exact (split_w ops)" and "split_exact (split_h ops)"
    and "(if r_w r > r_h r then split_w ops r else split_h ops r) = (A, B)"
  shows "pixels A \<inter> pixels B = {}" and "pixels A \<union> pixels B = pixels r"
proof -
  have "case (if r_w r > r_h r then split_w ops r else split_h ops r) of
          (A, B) \<Rightarrow> pixels A \<inter> pixels B = {} \<and> pixels A \<union> pixels B = pixels r"
    using assms(1,2) unfolding split_exact_def by (simp split: if_splits)
  then show "pixels A \<inter> pixels B = {}" and "pixels A \<union> pixels B = pixels r"
    unfolding assms(3) by simp_all
qed

lemma leaves_dropped_partition:
  assumes "split_exact (split_w ops)" and "split_exact (split_h ops)"
  shows "cover (splitRecursive ops r n [] @ droppedRecursive ops r n) = pixels r \<and>
         disjoint_regions (splitRecursive ops r n [] @ droppedRecursive ops r n)"
proof (induction n arbitrary: r)
  case 0
  show ?case
    by (simp add: leaves_unfold [of ops r 0] droppedRecursive.simps [of ops r 0])
next
  case (Suc n)
  obtain A B where AB: "(if r_w r > r_h r then split_w ops r else split_h ops r) = (A, B)"
    by (cases "if r_w r > r_h r then split_w ops r else split_h ops r")
  note ch = split_exact_children [OF assms AB]
  define la where "la = (if r_h A > 2 \<and> r_w A > 2 then splitRecursive ops A n [] else [])"
  define da where "da = (if r_h A > 2 \<and> r_w A > 2 then droppedRecursive ops A n else [A])"
  define lb where "lb = (if r_h B > 2 \<and> r_w B > 2 then splitRecursive ops B n [] else [])"
  define db where "db = (if r_h B > 2 \<and> r_w B > 2 then droppedRecursive ops B n else [B])"
  have a: "cover (la @ da) = pixels A \<and> disjoint_regions (la @ da)"
    using Suc.IH [of A] by (simp add: la_def da_def)
  have b: "cover (lb @ db) = pixels B \<and> disjoint_regions (lb @ db)"
    using Suc.IH [of B] by (simp add: lb_def db_def)
  show ?case
  proof (cases "r_w r < 2 \<or> r_h r < 2")
    case True
    then show ?thesis
      by (simp add: leaves_unfold_Suc [OF AB] dropped_unfold_Suc [OF AB])
  next
    case False
    have l: "splitRecursive ops r (Suc n) [] = la @ lb"
      using False by (simp add: leaves_unfold_Suc [OF AB] la_def lb_def)
    have d: "droppedRecursive ops r (Suc n) = da @ db"
      using False by (simp add: dropped_unfold_Suc [OF AB] da_def db_def)
    have "cover ((la @ lb) @ (da @ db)) = cover (la @ da) \<union> cover (lb @ db)"
      by auto
    then have c: "cover ((la @ lb) @ (da @ db)) = pixels r"
      using a b ch(2) by simp
    have "cover (la @ da) \<inter> cover (lb @ db) = {}"
      using a b ch(1) by simp
    then have "disjoint_regions ((la @ lb) @ (da @ db))"
      using a b disjoint_regions_merge by blast
    with c show ?thesis unfolding l d by simp
  qed
qed

lemma dropped_small: "d \<in> set (droppedRecursive ops r n) \<Longrightarrow> r_w d \<le> 2 \<or> r_h d \<le> 2"
proof (induction n arbitrary: r)
  case 0
  then show ?case by (simp add: droppedRecursive.simps [of ops r 0])
next
  case (Suc n)
  obtain A B where AB: "(if r_w r > r_h r then split_w ops r else split_h ops r) = (A, B)"
    by (cases "if r_w r > r_h r then split_w ops r else split_h ops r")
  from Suc.prems show ?case
    unfolding dropped_unfold_Suc [OF AB]
    using Suc.IH [of A] Suc.IH [of B] by (auto split: if_splits)
qed


lemma root_is_leaf:
  assumes "r_w r < 2 \<or> r_h r < 2 \<or> n = 0"
  shows "splitRecursive ops r n regions = regions @ [r]"
  by (subst splitRecursive.simps) (simp only: assms if_True)

text \<open>Evaluation of the concrete table.\<close>

lemma create_flat: "create flat_ops x y w h t = flat_region t x y w h"
  by (simp add: create_def flat_ops_def flat_region_def)

lemma flat_cut_6_6_1:
  "medianVarianceCut flat_ops (6, 6) 1 = [flat_region (6, 6) 0 0 6 3, flat_region (6, 6) 0 3 6 3]"
  by (simp add: medianVarianceCut_def create_def flat_ops_def flat_region_def
      splitRecursive.simps)

lemma flat_cut_2_2_1: "medianVarianceCut flat_ops (2, 2) 1 = []"
  by (simp add: medianVarianceCut_def create_def flat_ops_def flat_region_def
      splitRecursive.simps)

lemma pixels_create:
  "pixels (create ops 0 0 (sat_width ops img) (sat_height ops img) img) = image_pixels ops img"
  by (simp add: pixels_def create_def image_pixels_def)

lemma flat_split_w_exact: "split_exact (split_w flat_ops)"
  unfolding split_exact_def
  by (auto simp: flat_ops_def flat_region_def pixels_def)

lemma flat_split_h_exact: "split_exact (split_h flat_ops)"
  unfolding split_exact_def
  by (auto simp: flat_ops_def flat_region_def pixels_def)

lemma flat_cut_7_5_2:
  "medianVarianceCut flat_ops (7, 5) 2 = [flat_region (7, 5) 0 2 3 3, flat_region (7, 5) 3 2 4 3]"
  by (simp add: medianVarianceCut_def create_def flat_ops_def flat_region_def
      splitRecursive.simps)

lemma flat_dropped_7_5_2:
  "droppedCut flat_ops (7, 5) 2 = [flat_region (7, 5) 0 0 3 2, flat_region (7, 5) 3 0 4 2]"
  by (simp add: droppedCut_def create_def flat_ops_def flat_region_def
      droppedRecursive.simps)

lemma flat_cut_2_2_8: "medianVarianceCut flat_ops (2, 2) (to_uint 8) = []"
  by (simp add: to_uint_def medianVarianceCut_def create_def flat_ops_def flat_region_def
      splitRecursive.simps)

lemma flat_cut_0_5_3: "medianVarianceCut flat_ops (0, 5) 3 = [flat_region (0, 5) 0 0 0 5]"
  by (simp add: medianVarianceCut_def create_def flat_ops_def flat_region_def
      splitRecursive.simps)

section \<open>Properties of the program\<close>

lemma main_usage_options:
  "getopt_loop e (getopt_results call) initial_config = None \<Longrightarrow>
   main e call =
     \<lparr>exit_code = 1, stdout = [], stderr = fst (usage (argv call ! 0))\<rparr>"
  by (simp add: main_def usage_def)

lemma main_usage_positional:
  "getopt_loop e (getopt_results call) initial_config = Some cfg \<Longrightarrow>
   \<not> optind call < length (argv call) \<Longrightarrow>
   main e call =
     \<lparr>exit_code = 1, stdout = [], stderr = fst (usage (argv call ! 0))\<rparr>"
  by (simp add: main_def usage_def)

lemma main_cannot_open:
  "getopt_loop e (getopt_results call) initial_config = Some cfg \<Longrightarrow>
   optind call < length (argv call) \<Longrightarrow>
   load_image_exr (LoadEXR e) (argv call ! optind call) = Inl err \<Longrightarrow>
   main e call =
     \<lparr>exit_code = 1, stdout = [Text err],
      stderr = ''Cannot open '' @ argv call ! 1 @ '' image file'' @ [CHR 0x0A]\<rparr>"
  by (simp add: main_def)

lemma main_cannot_cut:
  "getopt_loop e (getopt_results call) initial_config = Some cfg \<Longrightarrow>
   optind call < length (argv call) \<Longrightarrow>
   load_image_exr (LoadEXR e) (argv call ! optind call) = Inr im \<Longrightarrow>
   medianVarianceCut (sat e)
     (createLum e (img_data im) (img_width im) (img_height im) (img_nc im))
     (to_uint (numCuts cfg)) = [] \<Longrightarrow>
   main e call =
     \<lparr>exit_code = 1, stdout = [],
      stderr = ''Cannot cut '' @ argv call ! 1 @ '' into light regions'' @ [CHR 0x0A]\<rparr>"
  by (simp add: main_def Let_def printVariance_def)

lemma main_success:
  assumes "getopt_loop e (getopt_results call) initial_config = Some cfg"
    and "optind call < length (argv call)"
    and "load_image_exr (LoadEXR e) (argv call ! optind call) = Inr im"
    and "medianVarianceCut (sat e)
           (createLum e (img_data im) (img_width im) (img_height im) (img_nc im))
           (to_uint (numCuts cfg)) = regions"
    and "regions \<noteq> []"
  shows "\<exists>mainLights ds.
     main e call =
       \<lparr>exit_code = 0,
        stdout = printVariance regions
          @ outputJSON (vec_normalize e) mainLights (to_uint (img_height im))
              (to_uint (img_width im)) (to_uint (img_width im * img_height im))
              (getSum e (createLum e (img_data im) (img_width im) (img_height im) (img_nc im)))
              (numLights cfg)
          @ map Text ds,
        stderr = []\<rparr> \<and> (\<not> debug cfg \<longrightarrow> ds = [])"
proof -
  define t where "t = createLum e (img_data im) (img_width im) (img_height im) (img_nc im)"
  define merged where
    "merged = mergeLights e
       (sort_lights e
          (createLightsFromRegions e regions (img_data im)
             (ratioLuminanceLight cfg * getSum e t) (img_width im) (img_height im)
             (img_nc im) t))
       (img_width im) (img_height im) (ratioAreaSizeMax cfg) (ratioLengthSizeMax cfg)
       (ratioLuminanceLight cfg * getSum e t) 35"
  define ml where "ml = rev (sort_lights e (snd merged))"
  define ds where
    "ds = (if debug cfg
           then debugDrawLight e regions (fst merged) ml (img_data im) (img_width im)
                  (img_height im) (img_nc im) (getMaxLum e t) (getMinLum e t) (numLights cfg)
           else [])"
  have "main e call =
       \<lparr>exit_code = 0,
        stdout = printVariance regions
          @ outputJSON (vec_normalize e) ml (to_uint (img_height im))
              (to_uint (img_width im)) (to_uint (img_width im * img_height im))
              (getSum e t) (numLights cfg)
          @ map Text ds,
        stderr = []\<rparr>"
    using assms unfolding t_def [symmetric]
    by (simp add: main_def Let_def t_def [symmetric] merged_def [symmetric] ml_def [symmetric]
        ds_def)
  moreover have "\<not> debug cfg \<longrightarrow> ds = []"
    by (simp add: ds_def)
  ultimately show ?thesis
    unfolding t_def by blast
qed

lemma split_step:
  assumes "2 \<le> r_w r" and "2 \<le> r_h r" and "0 < n"
  shows "splitRecursive ops r n regions =
     regions @ descend ops (fst (if r_h r < r_w r then split_w ops r else split_h ops r)) (n - 1)
             @ descend ops (snd (if r_h r < r_w r then split_w ops r else split_h ops r)) (n - 1)"
proof -
  obtain A B where AB: "(if r_w r > r_h r then split_w ops r else split_h ops r) = (A, B)"
    by (cases "if r_w r > r_h r then split_w ops r else split_h ops r")
  have "splitRecursive ops r n [] = descend ops A (n - 1) @ descend ops B (n - 1)"
    using assms by (subst leaves_unfold) (simp add: AB descend_def)
  then show ?thesis
    using splitRecursive_acc [of ops r n regions] by (simp add: AB)
qed

lemma flat_splits_6_6:
  "split_h flat_ops (flat_region (6, 6) 0 0 6 6) =
     (flat_region (6, 6) 0 0 6 3, flat_region (6, 6) 0 3 6 3)"
  "split_w flat_ops (flat_region (6, 6) 0 0 6 6) =
     (flat_region (6, 6) 0 0 3 6, flat_region (6, 6) 3 0 3 6)"
  by (simp_all add: flat_ops_def flat_region_def)

lemma flat_split_6_6_1:
  "splitRecursive flat_ops (flat_region (6, 6) 0 0 6 6) 1 [] =
     [flat_region (6, 6) 0 0 6 3, flat_region (6, 6) 0 3 6 3]"
  by (simp add: flat_ops_def flat_region_def splitRecursive.simps)

section \<open>Properties of the serializer\<close>

lemma light_records_append:
  "light_records (xs @ ys) = light_records xs @ light_records ys"
  by (induction xs rule: light_records.induct) simp_all

lemma loop_at_cap: "\<not> i < cap \<Longrightarrow> outputJSON_loop nrm s cap i ls = []"
  by (cases ls) simp_all

lemma loop_ignores_culled:
  "outputJSON_loop nrm s cap i ls = outputJSON_loop nrm s cap i (filter (\<lambda>l. \<not> culled l) ls)"
proof (induction ls arbitrary: i)
  case Nil
  show ?case by simp
next
  case (Cons l ls)
  show ?case
  proof (cases "i < cap")
    case True
    then show ?thesis
      using Cons.IH [of i] Cons.IH [of "i + 1"] by (simp add: culled_def)
  next
    case False
    then show ?thesis by (simp add: loop_at_cap)
  qed
qed

lemma loop_records:
  "light_records (outputJSON_loop nrm s cap i ls) =
     map (light_object nrm s) (take (cap - i) (filter (\<lambda>l. \<not> culled l) ls))"
proof (induction ls arbitrary: i)
  case Nil
  show ?case by simp
next
  case (Cons l ls)
  show ?case
  proof (cases "i < cap")
    case True
    then have "cap - i = Suc (cap - (i + 1))" by simp
    then show ?thesis
      using True Cons.IH [of i] Cons.IH [of "i + 1"]
      by (simp add: culled_def light_records_append)
  next
    case False
    then show ?thesis by simp
  qed
qed

lemma loop_objects:
  "LightObj j \<in> set (outputJSON_loop nrm s cap i ls) \<Longrightarrow>
     \<exists>l \<in> set ls. \<not> culled l \<and> j = light_object nrm s l"
proof (induction ls arbitrary: i)
  case Nil
  then show ?case by simp
next
  case (Cons l ls)
  then show ?case
    by (auto simp: culled_def split: if_splits)
qed

lemma outputJSON_records:
  "light_records (outputJSON nrm lights h w a s k) =
     map (light_object nrm s)
       (take (if k > 0 then nat k else length lights) (filter (\<lambda>l. \<not> culled l) lights))"
  by (simp add: outputJSON_def Let_def light_records_append loop_records)

lemma outputJSON_objects:
  "LightObj j \<in> set (outputJSON nrm lights h w a s k) \<Longrightarrow>
     \<exists>l \<in> set lights. \<not> culled l \<and> j = light_object nrm s l"
  using loop_objects [of j nrm s _ 0 lights]
  by (auto simp: outputJSON_def Let_def)

lemma direction_of_eq:
  "direction_of nrm x y =
     nrm (sin (pi * (1 - y)) * cos (2 * pi * x - pi / 2), cos (pi * (1 - y)),
          sin (pi * (1 - y)) * sin (2 * pi * x - pi / 2))"
  by (simp add: direction_of_def Let_def mult.commute mult.left_commute)

text \<open>
  Over the reals the vector that is handed to \<open>normalize\<close> has length 1 already, so
  that the normalization of the concrete environment leaves it as it is.
\<close>

lemma direction_unit:
  "(sin t * cos p) * (sin t * cos p) + cos t * cos t + (sin t * sin p) * (sin t * sin p) = (1::real)"
proof -
  have a: "cos p * cos p + sin p * sin p = 1"
    using sin_cos_squared_add2 [of p] by (simp add: power2_eq_square)
  have b: "sin t * sin t + cos t * cos t = 1"
    using sin_cos_squared_add [of t] by (simp add: power2_eq_square)
  have c: "(sin t * cos p) * (sin t * cos p) + cos t * cos t + (sin t * sin p) * (sin t * sin p)
      = (sin t * sin t) * (cos p * cos p + sin p * sin p) + cos t * cos t"
    by (simp only: algebra_simps)
  show ?thesis
    unfolding c a using b by simp
qed

lemma unit_vec_direction:
  "unit_vec (sin t * cos p, cos t, sin t * sin p) = (sin t * cos p, cos t, sin t * sin p)"
  using direction_unit [of t p] by (simp add: unit_vec_def Let_def)

lemma low_light_culled: "culled low_light"
  by (simp add: culled_def low_light_def flat_light_def flat_region_def)

lemma high_light_kept: "\<not> culled high_light"
  by (simp add: culled_def high_light_def flat_light_def flat_region_def)

lemma light_object_centroid:
  "j_area_x (light_object nrm s l) = fst (l_centroidPosition l)"
  "j_area_y (light_object nrm s l) = snd (l_centroidPosition l)"
  "j_direction (light_object nrm s l) =
     nrm (spec_direction (fst (l_centroidPosition l)) (snd (l_centroidPosition l)))"
  by (simp_all add: light_object_def Let_def direction_of_eq spec_direction_def)

lemma outputJSON_directions:
  "map (\<lambda>j. (j_area_x j, j_area_y j, j_direction j))
       (light_records (outputJSON nrm lights h w a s k)) =
   map (\<lambda>l. (fst (l_centroidPosition l), snd (l_centroidPosition l),
              nrm (spec_direction (fst (l_centroidPosition l)) (snd (l_centroidPosition l)))))
       (take (if 0 < k then nat k else length lights)
          (filter (\<lambda>l. \<not> snd (l_centroidPosition l) \<ge> 0.5) lights))"
proof -
  have f: "(\<lambda>l. \<not> culled l) = (\<lambda>l. \<not> snd (l_centroidPosition l) \<ge> 0.5)"
    by (simp add: culled_def)
  show ?thesis
    unfolding outputJSON_records f map_map
    by (simp add: comp_def light_object_centroid)
qed

lemma high_light_centroid: "l_centroidPosition high_light = (1 / 2, 1 / 4)"
  by (simp add: high_light_def flat_light_def flat_region_def)

lemma low_light_centroid: "l_centroidPosition low_light = (1 / 2, 3 / 4)"
  by (simp add: low_light_def flat_light_def flat_region_def)

section \<open>The outcomes of a run\<close>

lemma getopt_keeps_numLights:
  "CHR ''m'' \<notin> fst ` set opts \<Longrightarrow> getopt_loop e opts cfg = Some cfg' \<Longrightarrow>
   numLights cfg' = numLights cfg"
  by (induction e opts cfg rule: getopt_loop.induct) (auto split: if_splits)

lemma getopt_loop_None:
  "getopt_loop e opts cfg = None \<longleftrightarrow> (\<exists>x \<in> set opts. fst x \<notin> set ''adlmnr'')"
  by (induction e opts cfg rule: getopt_loop.induct) auto

lemma getopt_loop_stbi:
  "getopt_loop (e\<lparr>stbi_loadf := f\<rparr>) opts cfg = getopt_loop e opts cfg"
  by (induction e opts cfg rule: getopt_loop.induct) simp_all

lemma printVariance_records: "light_records (printVariance_from i rs) = []"
  by (induction rs arbitrary: i) simp_all

lemma Text_records: "light_records (map Text ds) = []"
  by (induction ds) simp_all

lemma length_printVariance_from: "length (printVariance_from i rs) = 2 * length rs"
  by (induction rs arbitrary: i) simp_all

lemma main_cases:
  obtains (usage) "main e call = \<lparr>exit_code = 1, stdout = [], stderr = fst (usage (argv call ! 0))\<rparr>"
      "getopt_loop e (getopt_results call) initial_config = None \<or>
       \<not> optind call < length (argv call)"
  | (cannot_open) cfg err where
      "getopt_loop e (getopt_results call) initial_config = Some cfg"
      "optind call < length (argv call)"
      "load_image_exr (LoadEXR e) (argv call ! optind call) = Inl err"
      "main e call =
         \<lparr>exit_code = 1, stdout = [Text err],
          stderr = ''Cannot open '' @ argv call ! 1 @ '' image file'' @ [CHR 0x0A]\<rparr>"
  | (cannot_cut) cfg im where
      "getopt_loop e (getopt_results call) initial_config = Some cfg"
      "optind call < length (argv call)"
      "load_image_exr (LoadEXR e) (argv call ! optind call) = Inr im"
      "medianVarianceCut (sat e)
         (createLum e (img_data im) (img_width im) (img_height im) (img_nc im))
         (to_uint (numCuts cfg)) = []"
      "main e call =
         \<lparr>exit_code = 1, stdout = [],
          stderr = ''Cannot cut '' @ argv call ! 1 @ '' into light regions'' @ [CHR 0x0A]\<rparr>"
  | (success) cfg im mainLights ds where
      "getopt_loop e (getopt_results call) initial_config = Some cfg"
      "optind call < length (argv call)"
      "load_image_exr (LoadEXR e) (argv call ! optind call) = Inr im"
      "medianVarianceCut (sat e)
         (createLum e (img_data im) (img_width im) (img_height im) (img_nc im))
         (to_uint (numCuts cfg)) \<noteq> []"
      "main e call =
         \<lparr>exit_code = 0,
          stdout = printVariance (medianVarianceCut (sat e)
                (createLum e (img_data im) (img_width im) (img_height im) (img_nc im))
                (to_uint (numCuts cfg)))
            @ outputJSON (vec_normalize e) mainLights (to_uint (img_height im))
                (to_uint (img_width im)) (to_uint (img_width im * img_height im))
                (getSum e (createLum e (img_data im) (img_width im) (img_height im) (img_nc im)))
                (numLights cfg)
            @ map Text ds,
          stderr = []\<rparr>"
      "\<not> debug cfg \<longrightarrow> ds = []"
proof (cases "getopt_loop e (getopt_results call) initial_config")
  case None
  then show ?thesis using usage main_usage_options by blast
next
  case (Some cfg)
  show ?thesis
  proof (cases "optind call < length (argv call)")
    case False
    with Some show ?thesis using usage main_usage_positional by blast
  next
    case True
    show ?thesis
    proof (cases "load_image_exr (LoadEXR e) (argv call ! optind call)")
      case (Inl err)
      show ?thesis
        using cannot_open [OF Some True Inl] main_cannot_open [OF Some True Inl] by blast
    next
      case (Inr im)
      show ?thesis
      proof (cases "medianVarianceCut (sat e)
         (createLum e (img_data im) (img_width im) (img_height im) (img_nc im))
         (to_uint (numCuts cfg)) = []")
        case True
        show ?thesis
          using cannot_cut [OF Some \<open>optind call < length (argv call)\<close> Inr True]
            main_cannot_cut [OF Some \<open>optind call < length (argv call)\<close> Inr True] by blast
      next
        case False
        show ?thesis
          using success [OF Some True Inr False]
            main_success [OF Some True Inr refl False] by blast
      qed
    qed
  qed
qed

lemma main_objects:
  assumes "LightObj j \<in> set (stdout (main e call))"
  shows "\<exists>lights h w a s k. LightObj j \<in> set (outputJSON (vec_normalize e) lights h w a s k)"
proof (cases e call rule: main_cases)
  case usage
  with assms show ?thesis by simp
next
  case (cannot_open cfg err)
  with assms show ?thesis by simp
next
  case (cannot_cut cfg im)
  with assms show ?thesis by simp
next
  case (success cfg im mainLights ds)
  have "LightObj j \<notin> set (printVariance_from i rs)" for i and rs :: "'a SatRegion list"
    by (induction rs arbitrary: i) simp_all
  moreover have "LightObj j \<notin> set (map Text ds)"
    by auto
  ultimately have "LightObj j \<in> set (outputJSON (vec_normalize e) mainLights (to_uint (img_height im))
                (to_uint (img_width im)) (to_uint (img_width im * img_height im))
                (getSum e (createLum e (img_data im) (img_width im) (img_height im) (img_nc im)))
                (numLights cfg))"
    using assms unfolding success(5) by (simp add: printVariance_def)
  then show ?thesis by blast
qed

lemma main_records:
  "light_records (stdout (main e call)) = [] \<or>
   (\<exists>cfg lights h w a s.
      getopt_loop e (getopt_results call) initial_config = Some cfg \<and>
      light_records (stdout (main e call)) =
        light_records (outputJSON (vec_normalize e) lights h w a s (numLights cfg)))"
proof (cases e call rule: main_cases)
  case usage
  then show ?thesis by simp
next
  case (cannot_open cfg err)
  then show ?thesis by simp
next
  case (cannot_cut cfg im)
  then show ?thesis by simp
next
  case (success cfg im mainLights ds)
  have "light_records (stdout (main e call)) =
      light_records (outputJSON (vec_normalize e) mainLights (to_uint (img_height im))
                (to_uint (img_width im)) (to_uint (img_width im * img_height im))
                (getSum e (createLum e (img_data im) (img_width im) (img_height im) (img_nc im)))
                (numLights cfg))"
    unfolding success(5)
    by (simp add: light_records_append printVariance_def printVariance_records Text_records)
  with success(1) show ?thesis by blast
qed

text \<open>Runs of the concrete environment.\<close>

lemma sky_getopt:
  "getopt_loop flat_env (getopt_results sky_call) initial_config = Some (initial_config\<lparr>numCuts := 1\<rparr>)"
  by (simp add: sky_call_def flat_env_def)

lemma hdr_getopt:
  "getopt_loop flat_env (getopt_results hdr_call) initial_config = Some (initial_config\<lparr>numCuts := 1\<rparr>)"
  by (simp add: hdr_call_def flat_env_def)

lemma sky_load:
  "load_image_exr (LoadEXR flat_env) (argv sky_call ! optind sky_call) =
     Inr \<lparr>img_width = 6, img_height = 6, img_data = replicate 144 1, img_nc = 4\<rparr>"
  by (simp add: sky_call_def load_image_exr_def flat_env_def)

lemma sky_regions:
  "medianVarianceCut (sat flat_env) (createLum flat_env (replicate 144 1) 6 6 4)
     (to_uint (numCuts (initial_config\<lparr>numCuts := 1\<rparr>))) =
   [flat_region (6, 6) 0 0 6 3, flat_region (6, 6) 0 3 6 3]"
  using flat_cut_6_6_1 by (simp add: flat_env_def to_uint_def)

lemma sky_run:
  "main flat_env sky_call =
     \<lparr>exit_code = 0,
      stdout =
        [RegionRect 0 0 0 6 3, RegionSums 0 18 18 18 18 18 18,
         RegionRect 1 0 3 6 3, RegionSums 1 18 18 18 18 18 18,
         Text ''['', LightObj (light_object unit_vec 36 high_light), Text '']''],
      stderr = []\<rparr>"
  unfolding sky_call_def high_light_def
  by (simp add: main_def flat_env_def initial_config_def load_image_exr_def to_uint_def
      medianVarianceCut_def create_def flat_ops_def flat_region_def splitRecursive.simps
      printVariance_def Let_def outputJSON_def flat_light_def light_object_def)

lemma hdr_run:
  "main flat_env hdr_call =
     \<lparr>exit_code = 1, stdout = [Text ''Invalid EXR header.''],
      stderr = ''Cannot open -n image file'' @ [CHR 0x0A]\<rparr>"
  unfolding hdr_call_def
  by (simp add: main_def flat_env_def initial_config_def load_image_exr_def)

section \<open>The claims\<close>

text \<open>
  C1, as amended. The claim that the leaves cover the image fails: a child with a
  dimension of 2 or less is not descended into and is not emitted either. What holds,
  for split routines that cut a region exactly in two: the leaves of
  \<open>medianVarianceCut\<close> are pairwise disjoint, and together with the dropped children
  (each of which has a dimension of at most 2) they cover the image exactly, with no
  pixel both in a leaf and in a dropped child.
\<close>

theorem leaves_partition_without_dropped:
  assumes "split_exact (split_w ops)" and "split_exact (split_h ops)"
  shows "disjoint_regions (medianVarianceCut ops img n) \<and>
         cover (medianVarianceCut ops img n) \<inter> cover (droppedCut ops img n) = {} \<and>
         cover (medianVarianceCut ops img n) \<union> cover (droppedCut ops img n) = image_pixels ops img \<and>
         (\<forall>d \<in> set (droppedCut ops img n). r_w d \<le> 2 \<or> r_h d \<le> 2)"
proof -
  define root where "root = create ops 0 0 (sat_width ops img) (sat_height ops img) img"
  define ls where "ls = splitRecursive ops root n []"
  define ds where "ds = droppedRecursive ops root n"
  have p: "cover (ls @ ds) = pixels root" and d: "disjoint_regions (ls @ ds)"
    using leaves_dropped_partition [OF assms, of root n] by (simp_all add: ls_def ds_def)
  have d1: "disjoint_regions ls"
    and d2: "\<forall>a \<in> set ls. \<forall>b \<in> set ds. pixels a \<inter> pixels b = {}"
    using d unfolding disjoint_regions_append by simp_all
  have i: "cover ls \<inter> cover ds = {}"
    using d2 unfolding cover_def by blast
  have u: "cover ls \<union> cover ds = image_pixels ops img"
    using p by (simp add: root_def pixels_create)
  have s: "\<forall>d \<in> set ds. r_w d \<le> 2 \<or> r_h d \<le> 2"
    using dropped_small unfolding ds_def by blast
  show ?thesis
    using d1 i u s
    unfolding medianVarianceCut_def droppedCut_def ls_def ds_def root_def by simp
qed

theorem leaves_partition_without_dropped_witness:
  "split_exact (split_w flat_ops) \<and> split_exact (split_h flat_ops) \<and>
   medianVarianceCut flat_ops (7, 5) 2 = [flat_region (7, 5) 0 2 3 3, flat_region (7, 5) 3 2 4 3] \<and>
   droppedCut flat_ops (7, 5) 2 = [flat_region (7, 5) 0 0 3 2, flat_region (7, 5) 3 0 4 2] \<and>
   disjoint_regions [flat_region (7, 5) 0 2 3 3, flat_region (7, 5) 3 2 4 3] \<and>
   cover [flat_region (7, 5) 0 2 3 3, flat_region (7, 5) 3 2 4 3] \<union>
     cover [flat_region (7, 5) 0 0 3 2, flat_region (7, 5) 3 0 4 2] = image_pixels flat_ops (7, 5)"
  using leaves_partition_without_dropped [OF flat_split_w_exact flat_split_h_exact, of "(7, 5)" 2]
  by (simp add: flat_cut_7_5_2 flat_dropped_7_5_2 flat_split_w_exact flat_split_h_exact)

text \<open>
  The flat 2 by 2 image with depth budget 1: the region is split (neither dimension is
  below 2 and the budget is not 0), both children have a dimension of at most 2 and
  are dropped, so pixel \<open>(0, 0)\<close> of the image is in no returned region.
\<close>

theorem partition_gap_counterexample:
  "(0, 0) \<in> image_pixels flat_ops (2, 2) \<and> (0, 0) \<notin> cover (medianVarianceCut flat_ops (2, 2) 1)"
proof -
  have "(0, 0) \<in> image_pixels flat_ops (2, 2)"
    by (simp add: image_pixels_def flat_ops_def)
  then show ?thesis
    unfolding flat_cut_2_2_1 by simp
qed

text \<open>
  C2, as amended. An image of width and height at least 1 can yield no region (the
  flat 2 by 2 image does). What holds: when the depth budget is 0 or a dimension of
  the image is below 2, which includes every image of zero area, the output is
  exactly the region of the whole image; and whenever the output is empty, \<open>main\<close>
  writes the message \<open>Cannot cut ... into light regions\<close> to standard error and exits
  with code 1.
\<close>

theorem empty_partition_aborts:
  "(n = 0 \<or> sat_width ops img < 2 \<or> sat_height ops img < 2 \<longrightarrow>
      medianVarianceCut ops img n =
        [create ops 0 0 (sat_width ops img) (sat_height ops img) img]) \<and>
   (getopt_loop e (getopt_results call) initial_config = Some cfg \<longrightarrow>
    optind call < length (argv call) \<longrightarrow>
    load_image_exr (LoadEXR e) (argv call ! optind call) = Inr im \<longrightarrow>
    medianVarianceCut (sat e)
      (createLum e (img_data im) (img_width im) (img_height im) (img_nc im))
      (to_uint (numCuts cfg)) = [] \<longrightarrow>
    main e call =
      \<lparr>exit_code = 1, stdout = [],
       stderr = ''Cannot cut '' @ argv call ! 1 @ '' into light regions'' @ [CHR 0x0A]\<rparr>)"
proof -
  have "n = 0 \<or> sat_width ops img < 2 \<or> sat_height ops img < 2 \<Longrightarrow>
      medianVarianceCut ops img n =
        [create ops 0 0 (sat_width ops img) (sat_height ops img) img]"
    unfolding medianVarianceCut_def
    by (subst root_is_leaf) (auto simp: create_def)
  then show ?thesis
    using main_cannot_cut [of e call cfg im] by blast
qed

theorem empty_partition_aborts_witness:
  "medianVarianceCut flat_ops (0, 5) 3 = [flat_region (0, 5) 0 0 0 5] \<and>
   medianVarianceCut flat_ops (2, 2) (to_uint 8) = [] \<and>
   main flat_env tiny_call =
     \<lparr>exit_code = 1, stdout = [],
      stderr = ''Cannot cut tiny.exr into light regions'' @ [CHR 0x0A]\<rparr>"
proof -
  have g: "getopt_loop flat_env (getopt_results tiny_call) initial_config = Some initial_config"
    by (simp add: tiny_call_def)
  have o: "optind tiny_call < length (argv tiny_call)"
    by (simp add: tiny_call_def)
  have l: "load_image_exr (LoadEXR flat_env) (argv tiny_call ! optind tiny_call) =
      Inr \<lparr>img_width = 2, img_height = 2, img_data = replicate 16 1, img_nc = 4\<rparr>"
    by (simp add: tiny_call_def load_image_exr_def flat_env_def)
  have c: "medianVarianceCut (sat flat_env)
      (createLum flat_env (replicate 16 1) 2 2 4) (to_uint (numCuts initial_config)) = []"
    using flat_cut_2_2_8 by (simp add: flat_env_def initial_config_def)
  have a: "argv tiny_call ! 1 = ''tiny.exr''"
    by (simp add: tiny_call_def)
  show ?thesis
    using empty_partition_aborts [of 3 flat_ops "(0, 5)" flat_env tiny_call initial_config
        "\<lparr>img_width = 2, img_height = 2, img_data = replicate 16 1, img_nc = 4\<rparr>"]
      g o l c a flat_cut_0_5_3 flat_cut_2_2_8
    by simp
qed

text \<open>
  The flat 2 by 2 image has width and height 2, and its partition with depth budget 1
  is empty.
\<close>

theorem empty_partition_counterexample:
  "1 \<le> sat_width flat_ops (2, 2) \<and> 1 \<le> sat_height flat_ops (2, 2) \<and>
   medianVarianceCut flat_ops (2, 2) 1 = []"
  using flat_cut_2_2_1 by (simp add: flat_ops_def)

text \<open>
  C3, as amended. The input format is not selected by extension or content: \<open>main\<close>
  decodes every input path with \<open>load_image_exr\<close>. The HDR decoder is never consulted
  (replacing it changes no outcome), a path that \<open>LoadEXR\<close> rejects ends the run with
  the message \<open>Cannot open ... image file\<close> and exit code 1, and a decoded image has the
  4 channels of the EXR loader.
\<close>

theorem decoder_is_exr:
  "main (e\<lparr>stbi_loadf := f\<rparr>) call = main e call \<and>
   (getopt_loop e (getopt_results call) initial_config = Some cfg \<longrightarrow>
    optind call < length (argv call) \<longrightarrow>
    LoadEXR e (argv call ! optind call) = Inl err \<longrightarrow>
      main e call =
        \<lparr>exit_code = 1, stdout = [Text err],
         stderr = ''Cannot open '' @ argv call ! 1 @ '' image file'' @ [CHR 0x0A]\<rparr>) \<and>
   (getopt_loop e (getopt_results call) initial_config = Some cfg \<longrightarrow>
    optind call < length (argv call) \<longrightarrow>
    LoadEXR e (argv call ! optind call) = Inr (d, w, h) \<longrightarrow>
      load_image_exr (LoadEXR e) (argv call ! optind call) =
        Inr \<lparr>img_width = w, img_height = h, img_data = d, img_nc = 4\<rparr>)"
proof -
  have 1: "main (e\<lparr>stbi_loadf := f\<rparr>) call = main e call"
    by (simp add: main_def getopt_loop_stbi Let_def
        cong: option.case_cong sum.case_cong if_cong)
  have 2: "main e call =
        \<lparr>exit_code = 1, stdout = [Text err],
         stderr = ''Cannot open '' @ argv call ! 1 @ '' image file'' @ [CHR 0x0A]\<rparr>"
    if "getopt_loop e (getopt_results call) initial_config = Some cfg"
      "optind call < length (argv call)" "LoadEXR e (argv call ! optind call) = Inl err"
    using main_cannot_open [OF that(1,2), of err] that(3) by (simp add: load_image_exr_def)
  have 3: "load_image_exr (LoadEXR e) (argv call ! optind call) =
        Inr \<lparr>img_width = w, img_height = h, img_data = d, img_nc = 4\<rparr>"
    if "LoadEXR e (argv call ! optind call) = Inr (d, w, h)"
    using that by (simp add: load_image_exr_def)
  show ?thesis using 1 2 3 by blast
qed

theorem decoder_is_exr_witness:
  "main (flat_env\<lparr>stbi_loadf := (\<lambda>p. None)\<rparr>) sky_call = main flat_env sky_call \<and>
   getopt_loop flat_env (getopt_results hdr_call) initial_config =
     Some (initial_config\<lparr>numCuts := 1\<rparr>) \<and>
   optind hdr_call < length (argv hdr_call) \<and>
   LoadEXR flat_env (argv hdr_call ! optind hdr_call) = Inl ''Invalid EXR header.'' \<and>
   main flat_env hdr_call =
     \<lparr>exit_code = 1, stdout = [Text ''Invalid EXR header.''],
      stderr = ''Cannot open -n image file'' @ [CHR 0x0A]\<rparr> \<and>
   getopt_loop flat_env (getopt_results sky_call) initial_config =
     Some (initial_config\<lparr>numCuts := 1\<rparr>) \<and>
   optind sky_call < length (argv sky_call) \<and>
   LoadEXR flat_env (argv sky_call ! optind sky_call) = Inr (replicate 144 1, 6, 6) \<and>
   load_image_exr (LoadEXR flat_env) (argv sky_call ! optind sky_call) =
     Inr \<lparr>img_width = 6, img_height = 6, img_data = replicate 144 1, img_nc = 4\<rparr>"
proof -
  have o: "optind hdr_call < length (argv hdr_call)" "optind sky_call < length (argv sky_call)"
    by (simp_all add: hdr_call_def sky_call_def)
  have l: "LoadEXR flat_env (argv hdr_call ! optind hdr_call) = Inl ''Invalid EXR header.''"
    by (simp add: hdr_call_def flat_env_def)
  have l2: "LoadEXR flat_env (argv sky_call ! optind sky_call) = Inr (replicate 144 1, 6, 6)"
    by (simp add: sky_call_def flat_env_def)
  have a: "argv hdr_call ! 1 = ''-n''"
    by (simp add: hdr_call_def)
  show ?thesis
    using decoder_is_exr [where e = flat_env and f = "\<lambda>p. None" and call = sky_call
        and cfg = "initial_config\<lparr>numCuts := 1\<rparr>" and d = "replicate 144 1" and w = 6 and h = 6]
      decoder_is_exr [where e = flat_env and f = "\<lambda>p. None" and call = hdr_call
        and cfg = "initial_config\<lparr>numCuts := 1\<rparr>" and err = "''Invalid EXR header.''"]
      sky_getopt hdr_getopt o l l2 a
    by simp
qed

text \<open>
  The run on \<open>sky.hdr\<close>, a file that \<open>load_image_hdr\<close> decodes: \<open>main\<close> hands it to the
  EXR loader and fails. (The message names \<open>argv[1]\<close>, here the option \<open>-n\<close>.)
\<close>

theorem hdr_decoder_counterexample:
  "load_image_hdr (stbi_loadf flat_env) (argv hdr_call ! optind hdr_call) =
     Some \<lparr>img_width = 6, img_height = 6, img_data = replicate 108 1, img_nc = 3\<rparr> \<and>
   main flat_env hdr_call =
     \<lparr>exit_code = 1, stdout = [Text ''Invalid EXR header.''],
      stderr = ''Cannot open -n image file'' @ [CHR 0x0A]\<rparr>"
proof -
  have "load_image_hdr (stbi_loadf flat_env) (argv hdr_call ! optind hdr_call) =
     Some \<lparr>img_width = 6, img_height = 6, img_data = replicate 108 1, img_nc = 3\<rparr>"
    by (simp add: hdr_call_def flat_env_def load_image_hdr_def)
  then show ?thesis
    using hdr_run by simp
qed

text \<open>
  C4, as amended. A light whose normalized centroid has \<open>v \<ge> 0.5\<close> is excluded from the
  emitted records, and it does not count toward the emission index: the loop of
  \<open>outputJSON\<close> yields the same output for a list of lights and for the list without its
  culled lights, at every cap and index, so the cap and the commas count emitted
  records only; and no emitted record has \<open>v \<ge> 0.5\<close>.
\<close>

theorem culled_lights_take_no_index:
  "outputJSON_loop nrm s cap i lights =
     outputJSON_loop nrm s cap i (filter (\<lambda>l. \<not> culled l) lights) \<and>
   (0 < k \<longrightarrow>
      outputJSON nrm lights h w a s k =
        outputJSON nrm (filter (\<lambda>l. \<not> culled l) lights) h w a s k) \<and>
   (\<forall>j. LightObj j \<in> set (outputJSON nrm lights h w a s k) \<longrightarrow> \<not> j_area_y j \<ge> 0.5)"
proof -
  have 1: "outputJSON_loop nrm s cap i lights =
      outputJSON_loop nrm s cap i (filter (\<lambda>l. \<not> culled l) lights)" for cap i
    by (rule loop_ignores_culled)
  have 2: "outputJSON nrm lights h w a s k =
      outputJSON nrm (filter (\<lambda>l. \<not> culled l) lights) h w a s k"
    if "0 < k"
    using that 1 [of "nat k" 0] by (simp add: outputJSON_def Let_def)
  have 3: "\<not> j_area_y j \<ge> 0.5" if "LightObj j \<in> set (outputJSON nrm lights h w a s k)" for j
    using outputJSON_objects [OF that] by (auto simp: culled_def light_object_def Let_def)
  show ?thesis using 1 2 3 by blast
qed

theorem culled_lights_take_no_index_witness:
  "outputJSON_loop unit_vec 36 1 0 [low_light, high_light] =
     outputJSON_loop unit_vec 36 1 0 [high_light] \<and>
   outputJSON unit_vec [low_light, high_light] 6 6 36 36 1 =
     outputJSON unit_vec [high_light] 6 6 36 36 1 \<and>
   LightObj (light_object unit_vec 36 high_light)
     \<in> set (outputJSON unit_vec [low_light, high_light] 6 6 36 36 1) \<and>
   \<not> j_area_y (light_object unit_vec 36 high_light) \<ge> 0.5"
proof -
  have m: "LightObj (light_object unit_vec 36 high_light)
     \<in> set (outputJSON unit_vec [low_light, high_light] 6 6 36 36 1)"
    using low_light_culled high_light_kept by (simp add: outputJSON_def culled_def)
  show ?thesis
    using culled_lights_take_no_index [of unit_vec 36 1 0 "[low_light, high_light]" 1 6 6 36]
      m low_light_culled high_light_kept
    by simp
qed

text \<open>
  A culled light followed by a kept one, with cap 1: the program emits the record of
  the kept light, whereas a loop in which the culled light takes an index emits none.
\<close>

theorem culled_index_counterexample:
  "culled low_light \<and> \<not> culled high_light \<and>
   light_records (outputJSON unit_vec [low_light, high_light] 6 6 36 36 1) =
     [light_object unit_vec 36 high_light] \<and>
   light_records
     ([Text ''[''] @ outputJSON_loop_spec unit_vec 36 1 0 [low_light, high_light] @ [Text '']''])
     = []"
  using low_light_culled high_light_kept
  by (simp add: outputJSON_def culled_def)

text \<open>
  C5. For every image and every depth budget \<open>n\<close>, \<open>medianVarianceCut\<close> produces at most
  \<open>2 ^ n\<close> leaf regions, whatever the split routines do.
\<close>

theorem medianVarianceCut_at_most_pow2:
  "length (medianVarianceCut ops img n) \<le> 2 ^ n"
  unfolding medianVarianceCut_def by (rule length_leaves)

theorem medianVarianceCut_at_most_pow2_witness:
  "length (medianVarianceCut flat_ops (6, 6) 1) \<le> 2 ^ 1 \<and>
   length (medianVarianceCut flat_ops (6, 6) 1) = 2"
  using medianVarianceCut_at_most_pow2 [of flat_ops "(6, 6)" 1]
  by (simp del: One_nat_def add: flat_cut_6_6_1)

text \<open>
  C6, as amended. At a split step (width and height at least 2, depth budget above 0)
  \<open>splitRecursive\<close> splits along the width, with \<open>split_w\<close>, when the width is strictly
  greater than the height, and along the height, with \<open>split_h\<close>, otherwise: a tie is
  broken toward the height. The result is the vector passed in, followed by what the
  two children of that split contribute.
\<close>

theorem split_axis_choice:
  "2 \<le> r_w r \<Longrightarrow> 2 \<le> r_h r \<Longrightarrow> 0 < n \<Longrightarrow>
   splitRecursive ops r n regions =
     (if r_h r < r_w r
      then regions @ descend ops (fst (split_w ops r)) (n - 1)
                   @ descend ops (snd (split_w ops r)) (n - 1)
      else regions @ descend ops (fst (split_h ops r)) (n - 1)
                   @ descend ops (snd (split_h ops r)) (n - 1))"
  using split_step [of r n ops regions] by simp

theorem split_axis_choice_witness:
  "(2::int) \<le> r_w (flat_region (6, 6) 0 0 6 6) \<and> (2::int) \<le> r_h (flat_region (6, 6) 0 0 6 6) \<and>
   (0::nat) < 1 \<and>
   splitRecursive flat_ops (flat_region (6, 6) 0 0 6 6) 1 [] =
     descend flat_ops (flat_region (6, 6) 0 0 6 3) 0 @ descend flat_ops (flat_region (6, 6) 0 3 6 3) 0"
proof -
  have g: "(2::int) \<le> r_w (flat_region (6, 6) 0 0 6 6)" "(2::int) \<le> r_h (flat_region (6, 6) 0 0 6 6)"
    "\<not> r_h (flat_region (6, 6) 0 0 6 6) < r_w (flat_region (6, 6) 0 0 6 6)"
    by (simp_all add: flat_region_def)
  show ?thesis
    using split_axis_choice [OF g(1,2), of 1 flat_ops "[]"] g
    by (simp add: flat_splits_6_6 del: One_nat_def)
qed

text \<open>
  The flat 6 by 6 region with depth budget 1: width equals height, and the leaves are
  the two children of \<open>split_h\<close> (upper and lower half), not those of \<open>split_w\<close>.
\<close>

theorem tie_splits_height_counterexample:
  "r_w (flat_region (6, 6) 0 0 6 6) = r_h (flat_region (6, 6) 0 0 6 6) \<and>
   split_w flat_ops (flat_region (6, 6) 0 0 6 6) =
     (flat_region (6, 6) 0 0 3 6, flat_region (6, 6) 3 0 3 6) \<and>
   split_h flat_ops (flat_region (6, 6) 0 0 6 6) =
     (flat_region (6, 6) 0 0 6 3, flat_region (6, 6) 0 3 6 3) \<and>
   splitRecursive flat_ops (flat_region (6, 6) 0 0 6 6) 1 [] =
     [flat_region (6, 6) 0 0 6 3, flat_region (6, 6) 0 3 6 3] \<and>
   splitRecursive flat_ops (flat_region (6, 6) 0 0 6 6) 1 [] \<noteq>
     [flat_region (6, 6) 0 0 3 6, flat_region (6, 6) 3 0 3 6]"
proof -
  have "r_w (flat_region (6, 6) 0 0 6 6) = r_h (flat_region (6, 6) 0 0 6 6)"
    by (simp add: flat_region_def)
  moreover have "flat_region (6, 6) 0 0 6 3 \<noteq> flat_region (6, 6) 0 0 3 6"
    by (simp add: flat_region_def)
  ultimately show ?thesis
    unfolding flat_split_6_6_1 flat_splits_6_6 by simp
qed

text \<open>
  C7. The exit code is 1 when \<open>getopt\<close> reports a character outside the six options,
  when no positional argument is left, when \<open>LoadEXR\<close> fails on the file (missing or
  not decodable), and when the partitioner returns no region; it is 0 when the options
  are accepted, a file is given and decoded, and the partition is not empty.
\<close>

theorem exit_codes:
  "((\<exists>x \<in> set (getopt_results call). fst x \<notin> set ''adlmnr'') \<longrightarrow>
      exit_code (main e call) = 1) \<and>
   (\<not> optind call < length (argv call) \<longrightarrow> exit_code (main e call) = 1) \<and>
   (LoadEXR e (argv call ! optind call) = Inl err \<longrightarrow> exit_code (main e call) = 1) \<and>
   (getopt_loop e (getopt_results call) initial_config = Some cfg \<longrightarrow>
    load_image_exr (LoadEXR e) (argv call ! optind call) = Inr im \<longrightarrow>
    medianVarianceCut (sat e)
      (createLum e (img_data im) (img_width im) (img_height im) (img_nc im))
      (to_uint (numCuts cfg)) = [] \<longrightarrow>
      exit_code (main e call) = 1) \<and>
   (getopt_loop e (getopt_results call) initial_config = Some cfg \<longrightarrow>
    optind call < length (argv call) \<longrightarrow>
    load_image_exr (LoadEXR e) (argv call ! optind call) = Inr im \<longrightarrow>
    medianVarianceCut (sat e)
      (createLum e (img_data im) (img_width im) (img_height im) (img_nc im))
      (to_uint (numCuts cfg)) \<noteq> [] \<longrightarrow>
      exit_code (main e call) = 0)"
proof -
  have 1: "exit_code (main e call) = 1"
    if "\<exists>x \<in> set (getopt_results call). fst x \<notin> set ''adlmnr''"
    using that main_usage_options [of e call] getopt_loop_None [of e "getopt_results call" initial_config]
    by simp
  have 2: "exit_code (main e call) = 1" if "\<not> optind call < length (argv call)"
    using that by (cases e call rule: main_cases) simp_all
  have 3: "exit_code (main e call) = 1" if "LoadEXR e (argv call ! optind call) = Inl err"
    using that by (cases e call rule: main_cases) (simp_all add: load_image_exr_def)
  have 4: "exit_code (main e call) = 1"
    if "getopt_loop e (getopt_results call) initial_config = Some cfg"
      "load_image_exr (LoadEXR e) (argv call ! optind call) = Inr im"
      "medianVarianceCut (sat e)
        (createLum e (img_data im) (img_width im) (img_height im) (img_nc im))
        (to_uint (numCuts cfg)) = []"
    using that by (cases e call rule: main_cases) simp_all
  have 5: "exit_code (main e call) = 0"
    if "getopt_loop e (getopt_results call) initial_config = Some cfg"
      "optind call < length (argv call)"
      "load_image_exr (LoadEXR e) (argv call ! optind call) = Inr im"
      "medianVarianceCut (sat e)
        (createLum e (img_data im) (img_width im) (img_height im) (img_nc im))
        (to_uint (numCuts cfg)) \<noteq> []"
    using that by (cases e call rule: main_cases) simp_all
  show ?thesis using 1 2 3 4 5 by blast
qed

theorem exit_codes_witness:
  "fst (CHR ''?'', []) \<notin> set ''adlmnr'' \<and>
   (CHR ''?'', []) \<in> set (getopt_results bad_flag_call) \<and>
   exit_code (main flat_env bad_flag_call) = 1 \<and>
   \<not> optind bare_call < length (argv bare_call) \<and>
   exit_code (main flat_env bare_call) = 1 \<and>
   LoadEXR flat_env (argv hdr_call ! optind hdr_call) = Inl ''Invalid EXR header.'' \<and>
   exit_code (main flat_env hdr_call) = 1 \<and>
   medianVarianceCut (sat flat_env) (createLum flat_env (replicate 16 1) 2 2 4)
     (to_uint (numCuts initial_config)) = [] \<and>
   exit_code (main flat_env tiny_call) = 1 \<and>
   medianVarianceCut (sat flat_env) (createLum flat_env (replicate 144 1) 6 6 4)
     (to_uint (numCuts (initial_config\<lparr>numCuts := 1\<rparr>))) \<noteq> [] \<and>
   exit_code (main flat_env sky_call) = 0"
proof -
  have b: "(CHR ''?'', []) \<in> set (getopt_results bad_flag_call)"
    by (simp add: bad_flag_call_def)
  then have b': "\<exists>x \<in> set (getopt_results bad_flag_call). fst x \<notin> set ''adlmnr''"
    by (rule bexI [rotated]) simp
  have n: "\<not> optind bare_call < length (argv bare_call)"
    by (simp add: bare_call_def)
  have l: "LoadEXR flat_env (argv hdr_call ! optind hdr_call) = Inl ''Invalid EXR header.''"
    by (simp add: hdr_call_def flat_env_def)
  have tg: "getopt_loop flat_env (getopt_results tiny_call) initial_config = Some initial_config"
    by (simp add: tiny_call_def)
  have tl: "load_image_exr (LoadEXR flat_env) (argv tiny_call ! optind tiny_call) =
      Inr \<lparr>img_width = 2, img_height = 2, img_data = replicate 16 1, img_nc = 4\<rparr>"
    by (simp add: tiny_call_def load_image_exr_def flat_env_def)
  have tc: "medianVarianceCut (sat flat_env)
      (createLum flat_env (replicate 16 1) 2 2 4) (to_uint (numCuts initial_config)) = []"
    using flat_cut_2_2_8 by (simp add: flat_env_def initial_config_def)
  have so: "optind sky_call < length (argv sky_call)"
    by (simp add: sky_call_def)
  have sc: "medianVarianceCut (sat flat_env) (createLum flat_env (replicate 144 1) 6 6 4)
     (to_uint (numCuts (initial_config\<lparr>numCuts := 1\<rparr>))) \<noteq> []"
    unfolding sky_regions by simp
  have f: "fst (CHR ''?'', []) \<notin> set ''adlmnr''"
    by simp
  have e1: "exit_code (main flat_env bad_flag_call) = 1"
    using exit_codes [where e = flat_env and call = bad_flag_call] b' by blast
  have e2: "exit_code (main flat_env bare_call) = 1"
    using exit_codes [where e = flat_env and call = bare_call] n by blast
  have e3: "exit_code (main flat_env hdr_call) = 1"
    using exit_codes [where e = flat_env and call = hdr_call and err = "''Invalid EXR header.''"] l
    by blast
  have e4: "exit_code (main flat_env tiny_call) = 1"
    using exit_codes [where e = flat_env and call = tiny_call and cfg = initial_config
        and im = "\<lparr>img_width = 2, img_height = 2, img_data = replicate 16 1, img_nc = 4\<rparr>"]
      tg tl tc by simp
  have e5: "exit_code (main flat_env sky_call) = 0"
    using exit_codes [where e = flat_env and call = sky_call
        and cfg = "initial_config\<lparr>numCuts := 1\<rparr>"
        and im = "\<lparr>img_width = 6, img_height = 6, img_data = replicate 144 1, img_nc = 4\<rparr>"]
      sky_getopt so sky_load sc by simp
  from f b e1 n e2 l e3 tc e4 sc e5 show ?thesis
    by blast
qed

text \<open>
  C8. The light records written by \<open>outputJSON\<close> are, in order, those of the lights
  that are not culled, up to the cap, and the record of a light with centroid
  \<open>(u, v)\<close> carries \<open>u\<close> and \<open>v\<close> as the \<open>x\<close> and \<open>y\<close> of its area and, as its
  direction, the normalization of \<open>(sin \<theta> cos \<phi>, cos \<theta>, sin \<theta> sin \<phi>)\<close> with
  \<open>\<phi> = 2\<pi>u - \<pi>/2\<close> and \<open>\<theta> = \<pi>(1 - v)\<close>. So every emitted record is the record of a
  light of the list, with that light's centroid and direction, and the light records on
  the standard output of \<open>main\<close> are those of a list of lights, with the normalization
  of the environment.
\<close>

theorem direction_formula:
  "map (\<lambda>j. (j_area_x j, j_area_y j, j_direction j))
       (light_records (outputJSON nrm lights h w a s k)) =
   map (\<lambda>l. (fst (l_centroidPosition l), snd (l_centroidPosition l),
              nrm (spec_direction (fst (l_centroidPosition l)) (snd (l_centroidPosition l)))))
       (take (if 0 < k then nat k else length lights)
          (filter (\<lambda>l. \<not> snd (l_centroidPosition l) \<ge> 0.5) lights)) \<and>
   (LightObj j \<in> set (outputJSON nrm lights h w a s k) \<longrightarrow>
      (\<exists>l \<in> set lights.
         j_area_x j = fst (l_centroidPosition l) \<and>
         j_area_y j = snd (l_centroidPosition l) \<and>
         j_direction j =
           nrm (spec_direction (fst (l_centroidPosition l)) (snd (l_centroidPosition l))))) \<and>
   (\<exists>(mainLights :: Light list) cap.
      map (\<lambda>j. (j_area_x j, j_area_y j, j_direction j)) (light_records (stdout (main e call))) =
      map (\<lambda>l. (fst (l_centroidPosition l), snd (l_centroidPosition l),
                 vec_normalize e
                   (spec_direction (fst (l_centroidPosition l)) (snd (l_centroidPosition l)))))
          (take cap (filter (\<lambda>l. \<not> snd (l_centroidPosition l) \<ge> 0.5) mainLights)))"
proof -
  have 2: "\<exists>l \<in> set lights.
         j_area_x j = fst (l_centroidPosition l) \<and>
         j_area_y j = snd (l_centroidPosition l) \<and>
         j_direction j =
           nrm (spec_direction (fst (l_centroidPosition l)) (snd (l_centroidPosition l)))"
    if asm: "LightObj j \<in> set (outputJSON nrm lights h w a s k)"
  proof -
    obtain l where "l \<in> set lights" "j = light_object nrm s l"
      using outputJSON_objects [OF asm] by blast
    then show ?thesis
      using light_object_centroid [of nrm s l] by blast
  qed
  have 3: "\<exists>(mainLights :: Light list) cap.
      map (\<lambda>j. (j_area_x j, j_area_y j, j_direction j)) (light_records (stdout (main e call))) =
      map (\<lambda>l. (fst (l_centroidPosition l), snd (l_centroidPosition l),
                 vec_normalize e
                   (spec_direction (fst (l_centroidPosition l)) (snd (l_centroidPosition l)))))
          (take cap (filter (\<lambda>l. \<not> snd (l_centroidPosition l) \<ge> 0.5) mainLights))"
  proof -
    from main_records [of e call] show ?thesis
    proof (elim disjE exE conjE)
      assume 1: "light_records (stdout (main e call)) = []"
      have "map (\<lambda>j. (j_area_x j, j_area_y j, j_direction j)) (light_records (stdout (main e call))) =
        map (\<lambda>l. (fst (l_centroidPosition l), snd (l_centroidPosition l),
                 vec_normalize e
                   (spec_direction (fst (l_centroidPosition l)) (snd (l_centroidPosition l)))))
          (take 0 (filter (\<lambda>l. \<not> snd (l_centroidPosition l) \<ge> 0.5) []))"
        unfolding 1 by simp
      then show ?thesis by blast
    next
      fix cfg ls h w a s
      assume 2: "light_records (stdout (main e call)) =
           light_records (outputJSON (vec_normalize e) ls h w a s (numLights cfg))"
      show ?thesis
        unfolding 2 outputJSON_directions
        by (rule exI [of _ ls], rule exI [of _ "if 0 < numLights cfg then nat (numLights cfg) else length ls"])
          (rule refl)
    qed
  qed
  show ?thesis
    using outputJSON_directions [of nrm lights h w a s k] 2 3 by blast
qed

theorem direction_formula_witness:
  "l_centroidPosition low_light = (1 / 2, 3 / 4) \<and>
   l_centroidPosition high_light = (1 / 2, 1 / 4) \<and>
   map (\<lambda>j. (j_area_x j, j_area_y j, j_direction j))
       (light_records (outputJSON unit_vec [low_light, high_light] 6 6 36 36 1)) =
     [(1 / 2, 1 / 4, unit_vec (spec_direction (1 / 2) (1 / 4)))] \<and>
   LightObj (light_object unit_vec 36 high_light)
     \<in> set (outputJSON unit_vec [low_light, high_light] 6 6 36 36 1) \<and>
   high_light \<in> set [low_light, high_light] \<and>
   j_area_x (light_object unit_vec 36 high_light) = 1 / 2 \<and>
   j_area_y (light_object unit_vec 36 high_light) = 1 / 4 \<and>
   j_direction (light_object unit_vec 36 high_light) = unit_vec (spec_direction (1 / 2) (1 / 4)) \<and>
   spec_direction (1 / 2) (1 / 4) =
     (sin (pi * (1 - 1 / 4)) * cos (2 * pi * (1 / 2) - pi / 2),
      cos (pi * (1 - 1 / 4)),
      sin (pi * (1 - 1 / 4)) * sin (2 * pi * (1 / 2) - pi / 2)) \<and>
   map (\<lambda>j. (j_area_x j, j_area_y j, j_direction j))
       (light_records (stdout (main flat_env sky_call))) =
     [(1 / 2, 1 / 4, vec_normalize flat_env (spec_direction (1 / 2) (1 / 4)))]"
proof -
  note t = direction_formula [of unit_vec "[low_light, high_light]" 6 6 36 36 1
      "light_object unit_vec 36 high_light" flat_env sky_call]
  have m: "LightObj (light_object unit_vec 36 high_light)
     \<in> set (outputJSON unit_vec [low_light, high_light] 6 6 36 36 1)"
    using low_light_culled high_light_kept by (simp add: outputJSON_def culled_def)
  have r: "map (\<lambda>j. (j_area_x j, j_area_y j, j_direction j))
       (light_records (outputJSON unit_vec [low_light, high_light] 6 6 36 36 1)) =
     [(1 / 2, 1 / 4, unit_vec (spec_direction (1 / 2) (1 / 4)))]"
  proof -
    have f: "take (if 0 < (1::int) then nat 1 else length [low_light, high_light])
          (filter (\<lambda>l. \<not> snd (l_centroidPosition l) \<ge> 0.5) [low_light, high_light]) =
        [high_light]"
      by (simp add: high_light_centroid low_light_centroid)
    show ?thesis
      using t [THEN conjunct1] unfolding f by (simp add: high_light_centroid)
  qed
  from t m obtain l where l: "l \<in> set [low_light, high_light]"
      "j_area_x (light_object unit_vec 36 high_light) = fst (l_centroidPosition l)"
      "j_area_y (light_object unit_vec 36 high_light) = snd (l_centroidPosition l)"
      "j_direction (light_object unit_vec 36 high_light) =
         unit_vec (spec_direction (fst (l_centroidPosition l)) (snd (l_centroidPosition l)))"
    by blast
  have y: "j_area_y (light_object unit_vec 36 high_light) = 1 / 4"
    by (simp add: light_object_def Let_def high_light_centroid)
  have "l = high_light"
    using l(1,3) y by (auto simp: low_light_centroid)
  then have d: "j_area_x (light_object unit_vec 36 high_light) = 1 / 2"
    "j_direction (light_object unit_vec 36 high_light) = unit_vec (spec_direction (1 / 2) (1 / 4))"
    using l(2,4) by (simp_all add: high_light_centroid)
  have s: "spec_direction (1 / 2) (1 / 4) =
     (sin (pi * (1 - 1 / 4)) * cos (2 * pi * (1 / 2) - pi / 2),
      cos (pi * (1 - 1 / 4)),
      sin (pi * (1 - 1 / 4)) * sin (2 * pi * (1 / 2) - pi / 2))"
    by (simp only: spec_direction_def)
  have h: "high_light \<in> set [low_light, high_light]" by simp
  have v: "vec_normalize flat_env = unit_vec"
    by (simp add: flat_env_def)
  have k: "map (\<lambda>j. (j_area_x j, j_area_y j, j_direction j))
       (light_records (stdout (main flat_env sky_call))) =
     [(1 / 2, 1 / 4, vec_normalize flat_env (spec_direction (1 / 2) (1 / 4)))]"
    unfolding sky_run v by (simp add: d y)
  from low_light_centroid high_light_centroid r m h d(1) y d(2) s k show ?thesis
    by blast
qed

text \<open>
  C9. On every run that exits with code 0, standard output begins with the dump of
  \<open>printVariance\<close>, two lines for each region of a partition that is not empty, followed
  by the JSON array of \<open>outputJSON\<close>; without the debug flag nothing follows the array.
  So the output is never the JSON array alone: its first chunk is the first line of
  region 0.
\<close>

theorem region_dump_precedes_json:
  "exit_code (main e call) = 0 \<Longrightarrow>
   \<exists>cfg im mainLights ds.
     getopt_loop e (getopt_results call) initial_config = Some cfg \<and>
     load_image_exr (LoadEXR e) (argv call ! optind call) = Inr im \<and>
     medianVarianceCut (sat e)
       (createLum e (img_data im) (img_width im) (img_height im) (img_nc im))
       (to_uint (numCuts cfg)) \<noteq> [] \<and>
     stdout (main e call) =
       printVariance (medianVarianceCut (sat e)
           (createLum e (img_data im) (img_width im) (img_height im) (img_nc im))
           (to_uint (numCuts cfg)))
       @ outputJSON (vec_normalize e) mainLights (to_uint (img_height im))
           (to_uint (img_width im)) (to_uint (img_width im * img_height im))
           (getSum e (createLum e (img_data im) (img_width im) (img_height im) (img_nc im)))
           (numLights cfg)
       @ map Text ds \<and>
     (\<not> debug cfg \<longrightarrow> ds = []) \<and>
     length (printVariance (medianVarianceCut (sat e)
           (createLum e (img_data im) (img_width im) (img_height im) (img_nc im))
           (to_uint (numCuts cfg)))) =
       2 * length (medianVarianceCut (sat e)
           (createLum e (img_data im) (img_width im) (img_height im) (img_nc im))
           (to_uint (numCuts cfg))) \<and>
     (\<exists>x y w h. hd (stdout (main e call)) = RegionRect 0 x y w h)"
proof (cases e call rule: main_cases)
  case usage
  moreover assume "exit_code (main e call) = 0"
  ultimately show ?thesis by simp
next
  case (cannot_open cfg err)
  moreover assume "exit_code (main e call) = 0"
  ultimately show ?thesis by simp
next
  case (cannot_cut cfg im)
  moreover assume "exit_code (main e call) = 0"
  ultimately show ?thesis by simp
next
  case (success cfg im mainLights ds)
  define regions where "regions = medianVarianceCut (sat e)
       (createLum e (img_data im) (img_width im) (img_height im) (img_nc im))
       (to_uint (numCuts cfg))"
  obtain r rs where rs: "regions = r # rs"
    using success(4) unfolding regions_def [symmetric] by (cases regions) simp_all
  have "hd (stdout (main e call)) = RegionRect 0 (r_x r) (r_y r) (r_w r) (r_h r)"
    unfolding success(5) regions_def [symmetric] by (simp add: rs printVariance_def)
  then have h: "\<exists>x y w h. hd (stdout (main e call)) = RegionRect 0 x y w h"
    by blast
  have l: "length (printVariance regions) = 2 * length regions"
    by (simp add: printVariance_def length_printVariance_from)
  have s: "stdout (main e call) =
       printVariance regions
       @ outputJSON (vec_normalize e) mainLights (to_uint (img_height im))
           (to_uint (img_width im)) (to_uint (img_width im * img_height im))
           (getSum e (createLum e (img_data im) (img_width im) (img_height im) (img_nc im)))
           (numLights cfg)
       @ map Text ds"
    unfolding success(5) regions_def by simp
  show ?thesis
    apply (rule exI [of _ cfg], rule exI [of _ im], rule exI [of _ mainLights], rule exI [of _ ds])
    using success(1,3,4,6) h l s unfolding regions_def by (intro conjI)
qed

theorem region_dump_precedes_json_witness:
  "exit_code (main flat_env sky_call) = 0 \<and>
   \<not> debug (initial_config\<lparr>numCuts := 1\<rparr>) \<and>
   stdout (main flat_env sky_call) =
     printVariance [flat_region (6, 6) 0 0 6 3, flat_region (6, 6) 0 3 6 3]
     @ outputJSON unit_vec [low_light, high_light] 6 6 36 36 1 \<and>
   hd (stdout (main flat_env sky_call)) = RegionRect 0 0 0 6 3"
proof -
  have x: "exit_code (main flat_env sky_call) = 0"
    by (simp add: sky_run)
  have j: "outputJSON unit_vec [low_light, high_light] 6 6 36 36 1 =
      [Text ''['', LightObj (light_object unit_vec 36 high_light), Text '']'']"
    using low_light_culled high_light_kept by (simp add: outputJSON_def culled_def)
  have p: "printVariance [flat_region (6, 6) 0 0 6 3, flat_region (6, 6) 0 3 6 3] =
      [RegionRect 0 0 0 6 3, RegionSums 0 18 18 18 18 18 18,
       RegionRect 1 0 3 6 3, RegionSums 1 18 18 18 18 18 18]"
    by (simp add: printVariance_def flat_region_def)
  show ?thesis
    using region_dump_precedes_json [OF x] x
    unfolding j p by (simp add: sky_run initial_config_def)
qed

text \<open>
  C10. When \<open>numLights \<le> 0\<close> the cap is the size of the light list and every light that
  is not culled is emitted; when \<open>numLights > 0\<close> at most \<open>numLights\<close> records are
  emitted; the initial value of \<open>numLights\<close> in \<open>main\<close> is 1, and a run whose options
  do not include \<open>-m\<close> writes at most one light record.
\<close>

theorem light_cap:
  "(k \<le> 0 \<longrightarrow>
      light_records (outputJSON nrm lights h w a s k) =
        map (light_object nrm s) (filter (\<lambda>l. \<not> culled l) lights)) \<and>
   (0 < k \<longrightarrow>
      length (light_records (outputJSON nrm lights h w a s k)) \<le> nat k) \<and>
   numLights initial_config = 1 \<and>
   (CHR ''m'' \<notin> fst ` set (getopt_results call) \<longrightarrow>
      length (light_records (stdout (main e call))) \<le> 1)"
proof -
  have 1: "light_records (outputJSON nrm lights h w a s k) =
        map (light_object nrm s) (filter (\<lambda>l. \<not> culled l) lights)" if "k \<le> 0"
  proof -
    have "length (filter (\<lambda>l. \<not> culled l) lights) \<le> length lights" by simp
    then show ?thesis
      using that by (simp add: outputJSON_records)
  qed
  have cap: "length (light_records (outputJSON nrm lights h w a s k)) \<le> nat k" if "0 < k"
    for k nrm lights h w a s
    using that by (simp add: outputJSON_records)
  have 3: "numLights initial_config = 1"
    by (simp add: initial_config_def)
  have 4: "length (light_records (stdout (main e call))) \<le> 1"
    if m: "CHR ''m'' \<notin> fst ` set (getopt_results call)"
  proof -
    consider "light_records (stdout (main e call)) = []"
      | cfg lights h w a s where
        "getopt_loop e (getopt_results call) initial_config = Some cfg"
        "light_records (stdout (main e call)) =
           light_records (outputJSON (vec_normalize e) lights h w a s (numLights cfg))"
      using main_records [of e call] by blast
    then show ?thesis
    proof cases
      case 1
      then show ?thesis by simp
    next
      case 2
      have "numLights cfg = 1"
        using getopt_keeps_numLights [OF m 2(1)] 3 by simp
      then show ?thesis
        using 2(2) cap [of 1 "vec_normalize e" lights h w a s] by simp
    qed
  qed
  show ?thesis using 1 cap 3 4 by blast
qed

theorem light_cap_witness:
  "light_records (outputJSON unit_vec [low_light, high_light, high_light] 6 6 36 36 0) =
     map (light_object unit_vec 36) [high_light, high_light] \<and>
   length (light_records (outputJSON unit_vec [high_light, high_light] 6 6 36 36 1)) \<le> 1 \<and>
   CHR ''m'' \<notin> fst ` set (getopt_results sky_call) \<and>
   length (light_records (stdout (main flat_env sky_call))) = 1"
proof -
  have m: "CHR ''m'' \<notin> fst ` set (getopt_results sky_call)"
    by (simp add: sky_call_def)
  have r: "length (light_records (stdout (main flat_env sky_call))) = 1"
    by (simp add: sky_run)
  show ?thesis
    using light_cap [of 0 unit_vec "[low_light, high_light, high_light]" 6 6 36 36 sky_call flat_env]
      light_cap [of 1 unit_vec "[high_light, high_light]" 6 6 36 36 sky_call flat_env]
      m r low_light_culled high_light_kept
    by simp
qed

end
